theory Spec2Isabelle
  imports Complex_Main
begin

section \<open>Python exceptions\<close>

text \<open>
  The exceptions that \<^verbatim>\<open>GPy/core/gp.py\<close> can raise, as values. A failed \<^verbatim>\<open>assert\<close>
  raises \<^verbatim>\<open>AssertionError\<close>; reading an attribute that was never assigned raises
  \<^verbatim>\<open>AttributeError\<close>; a missing dictionary key raises \<^verbatim>\<open>KeyError\<close>; numpy raises
  \<^verbatim>\<open>ValueError\<close> on shapes that do not fit. A collaborator (kernel, likelihood, inference
  method, sampler) may raise an exception of any class: \<open>OtherError\<close> carries its class name.
  The file defines no exception class of its own.
\<close>

datatype error =
    AssertionError
  | AttributeError string
  | KeyError string
  | ValueError
  | OtherError string

text \<open>The class name of an exception (\<^verbatim>\<open>type(e).__name__\<close>).\<close>

fun exn_name :: "error \<Rightarrow> string" where
  "exn_name AssertionError = ''AssertionError''"
| "exn_name (AttributeError a) = ''AttributeError''"
| "exn_name (KeyError k) = ''KeyError''"
| "exn_name ValueError = ''ValueError''"
| "exn_name (OtherError c) = c"

section \<open>numpy arrays\<close>

text \<open>
  A floating-point number is the real it represents; the operations of this section are
  exact, and the section on floating-point arithmetic gives them again with rounding. A
  two-dimensional array carries its shape
  (numpy keeps the column count of an array with no rows) and its rows; a one-dimensional
  array is a list. Arrays of other ranks are not represented.
\<close>

datatype mat = Mat (nrows: nat) (ncols: nat) (rows: "real list list")

datatype ndarray = A1 "real list" | A2 mat

text \<open>The representation invariant of a two-dimensional array.\<close>

definition wf_mat :: "mat \<Rightarrow> bool" where
  "wf_mat A = (length (rows A) = nrows A \<and> list_all (\<lambda>r. length r = ncols A) (rows A))"

fun ndim :: "ndarray \<Rightarrow> nat" where
  "ndim (A1 v) = 1"
| "ndim (A2 A) = 2"

fun shape :: "ndarray \<Rightarrow> nat list" where
  "shape (A1 v) = [length v]"
| "shape (A2 A) = [nrows A, ncols A]"

definition entry :: "mat \<Rightarrow> nat \<Rightarrow> nat \<Rightarrow> real" where
  "entry A i j = rows A ! i ! j"

definition tabulate :: "nat \<Rightarrow> nat \<Rightarrow> (nat \<Rightarrow> nat \<Rightarrow> real) \<Rightarrow> mat" where
  "tabulate r c f = Mat r c (map (\<lambda>i. map (f i) [0..<c]) [0..<r])"

text \<open>\<^verbatim>\<open>A.T\<close> of a two-dimensional array.\<close>

definition T :: "mat \<Rightarrow> mat" where
  "T A = tabulate (ncols A) (nrows A) (\<lambda>i j. entry A j i)"

text \<open>\<^verbatim>\<open>np.dot\<close> of two two-dimensional arrays: the inner dimensions must agree.\<close>

definition np_dot_mm :: "mat \<Rightarrow> mat \<Rightarrow> error + mat" where
  "np_dot_mm A B =
     (if ncols A = nrows B
      then Inr (tabulate (nrows A) (ncols B) (\<lambda>i j. \<Sum>k\<leftarrow>[0..<ncols A]. entry A i k * entry B k j))
      else Inl ValueError)"

text \<open>\<^verbatim>\<open>np.dot\<close> of a two-dimensional array with a one- or two-dimensional one.\<close>

fun np_dot :: "mat \<Rightarrow> ndarray \<Rightarrow> error + ndarray" where
  "np_dot A (A2 B) = (case np_dot_mm A B of Inl e \<Rightarrow> Inl e | Inr C \<Rightarrow> Inr (A2 C))"
| "np_dot A (A1 v) =
     (if ncols A = length v
      then Inr (A1 (map (\<lambda>i. \<Sum>k\<leftarrow>[0..<ncols A]. entry A i k * v ! k) [0..<nrows A]))
      else Inl ValueError)"

text \<open>
  Broadcasting of one axis: equal lengths, or one of them 1 (stretched to the other).
\<close>

definition broadcast_dim :: "nat \<Rightarrow> nat \<Rightarrow> nat option" where
  "broadcast_dim a b =
     (if a = b then Some a else if a = 1 then Some b else if b = 1 then Some a else None)"

definition bidx :: "nat \<Rightarrow> nat \<Rightarrow> nat" where
  "bidx n i = (if n = 1 then 0 else i)"

text \<open>The elementwise product \<^verbatim>\<open>A * B\<close> of two two-dimensional arrays.\<close>

definition multiply :: "mat \<Rightarrow> mat \<Rightarrow> error + mat" where
  "multiply A B =
     (case (broadcast_dim (nrows A) (nrows B), broadcast_dim (ncols A) (ncols B)) of
        (Some r, Some c) \<Rightarrow>
          Inr (tabulate r c (\<lambda>i j. entry A (bidx (nrows A) i) (bidx (ncols A) j)
                                  * entry B (bidx (nrows B) i) (bidx (ncols B) j)))
      | _ \<Rightarrow> Inl ValueError)"

text \<open>\<^verbatim>\<open>np.sum(A, 0)\<close>: the sum down the rows, one entry per column.\<close>

definition np_sum0 :: "mat \<Rightarrow> real list" where
  "np_sum0 A = map (\<lambda>j. \<Sum>i\<leftarrow>[0..<nrows A]. entry A i j) [0..<ncols A]"

text \<open>The difference \<^verbatim>\<open>u - v\<close> of two one-dimensional arrays.\<close>

definition subtract :: "real list \<Rightarrow> real list \<Rightarrow> error + real list" where
  "subtract u v =
     (case broadcast_dim (length u) (length v) of
        Some n \<Rightarrow> Inr (map (\<lambda>i. u ! bidx (length u) i - v ! bidx (length v) i) [0..<n])
      | None \<Rightarrow> Inl ValueError)"

text \<open>
  \<^verbatim>\<open>v.reshape(-1, 1)\<close> and \<^verbatim>\<open>v[:, None]\<close> of a one-dimensional array: one column.
\<close>

definition column :: "real list \<Rightarrow> mat" where
  "column v = Mat (length v) 1 (map (\<lambda>x. [x]) v)"

text \<open>\<^verbatim>\<open>A.flatten()\<close> (row-major) and \<^verbatim>\<open>np.diag(v)\<close> of a one-dimensional array.\<close>

definition flatten :: "mat \<Rightarrow> real list" where
  "flatten A = concat (rows A)"

definition np_diag :: "real list \<Rightarrow> mat" where
  "np_diag v = tabulate (length v) (length v) (\<lambda>i j. if i = j then v ! i else 0)"

section \<open>Collaborators\<close>

text \<open>
  The kernel, the likelihood, the posterior and the inference methods are classes of other
  modules; \<^verbatim>\<open>gp.py\<close> only calls them. Each is a record of what \<^verbatim>\<open>gp.py\<close> reads and calls:
  a method is a field holding a function, which may raise. A kernel returns a
  two-dimensional array from \<^verbatim>\<open>K\<close> (\<open>None\<close> as second argument is the call with one
  argument) and a one-dimensional array from \<^verbatim>\<open>Kdiag\<close>. The methods that store gradients
  change the collaborator: the stored values are the field \<open>gradient\<close>.
\<close>

type_synonym metadata = "(string \<times> real list) list"

type_synonym rng_state = "nat list"

record Kern =
  kern_input_dim :: nat
  K :: "ndarray \<Rightarrow> ndarray option \<Rightarrow> error + mat"
  Kdiag :: "ndarray \<Rightarrow> error + real list"
  update_gradients_full :: "ndarray \<Rightarrow> ndarray \<Rightarrow> error + real list"
  kern_gradient :: "real list"

text \<open>
  The class of a likelihood, as far as \<^verbatim>\<open>isinstance\<close> is asked in \<^verbatim>\<open>__init__\<close>:
  \<^verbatim>\<open>likelihoods.Gaussian\<close>, \<^verbatim>\<open>likelihoods.MixedNoise\<close>, or any other subclass of
  \<^verbatim>\<open>likelihoods.Likelihood\<close>, by name.
\<close>

datatype lik_class = Gaussian | MixedNoise | OtherLikelihood string

record Likelihood =
  lik_class :: lik_class
  predictive_values :: "mat \<Rightarrow> mat \<Rightarrow> bool \<Rightarrow> metadata option \<Rightarrow> error + (ndarray \<times> ndarray)"
  predictive_quantiles :: "mat \<Rightarrow> mat \<Rightarrow> real list \<Rightarrow> metadata option \<Rightarrow> error + ndarray list"
  samples :: "mat \<Rightarrow> metadata option \<Rightarrow> rng_state \<Rightarrow> (error + ndarray) \<times> rng_state"
  update_gradients :: "ndarray \<Rightarrow> error + real list"
  lik_gradient :: "real list"

record Posterior =
  woodbury_chol :: mat
  woodbury_inv :: mat
  woodbury_vector :: ndarray

type_synonym grad_dict = "(string \<times> ndarray) list"

text \<open>
  An inference method object: one of the two classes \<^verbatim>\<open>__init__\<close> instantiates, or any other
  one the caller supplies, by name. What its method \<^verbatim>\<open>inference\<close> computes is not in
  \<^verbatim>\<open>gp.py\<close>: the functions below take it as the parameter \<open>lfi\<close>.
\<close>

datatype inference_method = ExactGaussianInference | EP | OtherInference string

type_synonym inference_fn =
  "Kern \<Rightarrow> ndarray \<Rightarrow> Likelihood \<Rightarrow> ndarray \<Rightarrow> metadata \<Rightarrow> error + (Posterior \<times> real \<times> grad_dict)"

text \<open>
  \<^verbatim>\<open>np.random.multivariate_normal(mean, cov, size)\<close>, a parameter too: it reads and advances
  the state of numpy's global generator and returns \<open>size\<close> rows.
\<close>

type_synonym sampler = "real list \<Rightarrow> mat \<Rightarrow> nat \<Rightarrow> rng_state \<Rightarrow> (error + mat) \<times> rng_state"

section \<open>The GP model\<close>

text \<open>
  The attributes of a \<^verbatim>\<open>GP\<close> object. The three attributes that only \<^verbatim>\<open>parameters_changed\<close>
  assigns are optional: \<open>None\<close> is an attribute that does not exist yet.
  \<open>log_marginal_likelihood\<close> is the attribute \<^verbatim>\<open>_log_marginal_likelihood\<close>.
\<close>

record GP =
  name :: string
  parameters :: "string list"
  X :: ndarray
  num_data :: nat
  input_dim :: nat
  Y :: ndarray
  output_dim :: nat
  Y_metadata :: metadata
  kern :: Kern
  likelihood :: Likelihood
  inference_method :: inference_method
  posterior :: "Posterior option"
  log_marginal_likelihood :: "real option"
  grad_dict :: "grad_dict option"

text \<open>
  An argument of \<^verbatim>\<open>__init__\<close> that is tested with \<^verbatim>\<open>isinstance\<close>: an instance of the
  expected class, or some other object.
\<close>

datatype 'a pyobj = Instance 'a | NonInstance

text \<open>What \<^verbatim>\<open>__init__\<close> prints.\<close>

datatype stdout_line = Defaulting_to inference_method

text \<open>
  \<^verbatim>\<open>ObservableArray(X)\<close> wraps an array and keeps its values and shape. \<^verbatim>\<open>__init__\<close> keeps
  an \<open>X\<close> that is wrapped already and wraps any other: the same array either way. An \<open>X\<close>
  that is a \<^verbatim>\<open>VariationalPosterior\<close> is not represented.
\<close>

definition ObservableArray :: "ndarray \<Rightarrow> ndarray" where
  "ObservableArray A = A"

text \<open>
  Modelled from the spec: \<^verbatim>\<open>Model.__init__\<close> and \<^verbatim>\<open>add_parameter\<close> of the base class
  \<^verbatim>\<open>Model\<close>, which are not in \<^verbatim>\<open>gp.py\<close>. The spec calls them parameter-container
  bookkeeping (naming, optimizer plumbing): the first stores the name, the second
  registers a parameter object, here by the name of its attribute. Neither runs inference.
\<close>

definition Model_init :: "string \<Rightarrow> string \<times> string list" where
  "Model_init nm = (nm, [])"

definition add_parameter :: "string \<Rightarrow> GP \<Rightarrow> GP" where
  "add_parameter p self = self\<lparr>parameters := parameters self @ [p]\<rparr>"

text \<open>
  \<^verbatim>\<open>GP.__init__(self, X, Y, kernel, likelihood, inference_method=None, name='gp',
  Y_metadata=None)\<close>. The result is the error raised, or the object and what was printed.
  \<^verbatim>\<open>Y_metadata or {}\<close> is the empty dictionary when the argument is \<^verbatim>\<open>None\<close> or empty.
\<close>

definition GP_init ::
  "ndarray \<Rightarrow> ndarray \<Rightarrow> Kern pyobj \<Rightarrow> Likelihood pyobj \<Rightarrow> inference_method option \<Rightarrow> string
     \<Rightarrow> metadata option \<Rightarrow> error + (GP \<times> stdout_line list)" where
  "GP_init X0 Y0 kernel0 likelihood0 inference_method0 name0 Y_metadata0 =
     (let (nm', ps) = Model_init name0 in
      if ndim X0 \<noteq> 2 then Inl AssertionError
      else
        let X' = ObservableArray X0;
            n = shape X' ! 0;
            d = shape X' ! 1
        in
        if ndim Y0 \<noteq> 2 then Inl AssertionError
        else
          let Y' = ObservableArray Y0 in
          if shape Y0 ! 0 \<noteq> n then Inl AssertionError
          else
            let p = shape Y' ! 1;
                md' = (case Y_metadata0 of None \<Rightarrow> [] | Some m \<Rightarrow> if m = [] then [] else m)
            in
            case kernel0 of
              NonInstance \<Rightarrow> Inl AssertionError
            | Instance k \<Rightarrow>
                (case likelihood0 of
                   NonInstance \<Rightarrow> Inl AssertionError
                 | Instance l \<Rightarrow>
                     let (im', out) =
                           (case inference_method0 of
                              None \<Rightarrow>
                                if lik_class l = Gaussian \<or> lik_class l = MixedNoise
                                then (ExactGaussianInference, [])
                                else (EP, [Defaulting_to EP])
                            | Some i \<Rightarrow> (i, []));
                         self = \<lparr>name = nm', parameters = ps, X = X', num_data = n,
                                 input_dim = d, Y = Y', output_dim = p, Y_metadata = md',
                                 kern = k, likelihood = l, inference_method = im',
                                 posterior = None, log_marginal_likelihood = None,
                                 grad_dict = None\<rparr>
                     in Inr (add_parameter ''likelihood'' (add_parameter ''kern'' self), out)))"

text \<open>
  \<^verbatim>\<open>parameters_changed\<close>: the three results of the inference call are assigned at once,
  then the two gradients are looked up and handed to the likelihood and to the kernel. An
  exception leaves the assignments made before it: the result is the exception raised, if
  any, and the object as it then is.
\<close>

definition parameters_changed :: "(inference_method \<Rightarrow> inference_fn) \<Rightarrow> GP \<Rightarrow> error option \<times> GP" where
  "parameters_changed lfi self =
     (case lfi (inference_method self) (kern self) (X self) (likelihood self) (Y self)
             (Y_metadata self) of
        Inl e \<Rightarrow> (Some e, self)
      | Inr (post, lml, gd) \<Rightarrow>
          let self1 = self\<lparr>posterior := Some post, log_marginal_likelihood := Some lml,
                           grad_dict := Some gd\<rparr>
          in
          (case map_of gd ''dL_dthetaL'' of
             None \<Rightarrow> (Some (KeyError ''dL_dthetaL''), self1)
           | Some gl \<Rightarrow>
               (case update_gradients (likelihood self1) gl of
                  Inl e \<Rightarrow> (Some e, self1)
                | Inr g \<Rightarrow>
                    let self2 = self1\<lparr>likelihood := (likelihood self1)\<lparr>lik_gradient := g\<rparr>\<rparr> in
                    (case map_of gd ''dL_dK'' of
                       None \<Rightarrow> (Some (KeyError ''dL_dK''), self2)
                     | Some gk \<Rightarrow>
                         (case update_gradients_full (kern self2) gk (X self2) of
                            Inl e \<Rightarrow> (Some e, self2)
                          | Inr g' \<Rightarrow>
                              (None, self2\<lparr>kern := (kern self2)\<lparr>kern_gradient := g'\<rparr>\<rparr>))))))"

text \<open>\<^verbatim>\<open>log_likelihood\<close> returns the attribute; the object is not changed.\<close>

definition log_likelihood :: "GP \<Rightarrow> (error + real) \<times> GP" where
  "log_likelihood self =
     (case log_marginal_likelihood self of
        None \<Rightarrow> (Inl (AttributeError ''_log_marginal_likelihood''), self)
      | Some l \<Rightarrow> (Inr l, self))"

text \<open>
  \<^verbatim>\<open>_raw_predict(self, _Xnew, full_cov=False)\<close>, statement by statement. With \<open>full_cov\<close>
  the kernel is called for \<open>Kxx\<close>, which is then not used. The object is not changed.
\<close>

definition raw_predict :: "GP \<Rightarrow> ndarray \<Rightarrow> bool \<Rightarrow> (error + mat \<times> mat) \<times> GP" where
  "raw_predict self Xnew full_cov =
     (case K (kern self) Xnew (Some (X self)) of
        Inl e \<Rightarrow> (Inl e, self)
      | Inr KT \<Rightarrow>
          let Kx = T KT in
          (case posterior self of
             None \<Rightarrow> (Inl (AttributeError ''posterior''), self)
           | Some post \<Rightarrow>
               (case np_dot_mm (woodbury_inv post) Kx of
                  Inl e \<Rightarrow> (Inl e, self)
                | Inr WiKx \<Rightarrow>
                    (case np_dot (T Kx) (woodbury_vector post) of
                       Inl e \<Rightarrow> (Inl e, self)
                     | Inr mu \<Rightarrow>
                         (case (if full_cov
                                then (case K (kern self) Xnew None of
                                        Inl e \<Rightarrow> Inl e
                                      | Inr Kxx \<Rightarrow> np_dot_mm (T Kx) WiKx)
                                else (case Kdiag (kern self) Xnew of
                                        Inl e \<Rightarrow> Inl e
                                      | Inr Kxx \<Rightarrow>
                                          (case multiply WiKx Kx of
                                             Inl e \<Rightarrow> Inl e
                                           | Inr WK \<Rightarrow>
                                               (case subtract Kxx (np_sum0 WK) of
                                                  Inl e \<Rightarrow> Inl e
                                                | Inr var \<Rightarrow> Inr (column var))))) of
                            Inl e \<Rightarrow> (Inl e, self)
                          | Inr var \<Rightarrow>
                              (Inr (case mu of A1 v \<Rightarrow> column v | A2 B \<Rightarrow> B, var), self))))))"

text \<open>
  \<^verbatim>\<open>predict(self, Xnew, full_cov=False, Y_metadata=None)\<close>: the raw prediction, pushed
  through the likelihood. \<open>meta\<close> is the argument \<^verbatim>\<open>Y_metadata\<close> of the call.
\<close>

definition predict ::
  "GP \<Rightarrow> ndarray \<Rightarrow> bool \<Rightarrow> metadata option \<Rightarrow> (error + ndarray \<times> ndarray) \<times> GP" where
  "predict self Xnew full_cov meta =
     (case raw_predict self Xnew full_cov of
        (Inl e, self1) \<Rightarrow> (Inl e, self1)
      | (Inr (mu, var), self1) \<Rightarrow>
          (predictive_values (likelihood self1) mu var full_cov meta, self1))"

text \<open>\<^verbatim>\<open>predict_quantiles(self, X, quantiles=(2.5, 97.5), Y_metadata=None)\<close>.\<close>

definition default_quantiles :: "real list" where
  "default_quantiles = [25 / 10, 975 / 10]"

definition predict_quantiles ::
  "GP \<Rightarrow> ndarray \<Rightarrow> real list \<Rightarrow> metadata option \<Rightarrow> (error + ndarray list) \<times> GP" where
  "predict_quantiles self Xs quantiles meta =
     (case raw_predict self Xs False of
        (Inl e, self1) \<Rightarrow> (Inl e, self1)
      | (Inr (m, v), self1) \<Rightarrow>
          (predictive_quantiles (likelihood self1) m v quantiles meta, self1))"

text \<open>
  \<^verbatim>\<open>posterior_samples_f(self, X, size=10, full_cov=True)\<close>. The variance is two-dimensional
  here, so the reshape of a three-dimensional one does not apply. The result comes with
  the object and the generator's new state.
\<close>

definition posterior_samples_f ::
  "sampler \<Rightarrow> GP \<Rightarrow> ndarray \<Rightarrow> nat \<Rightarrow> bool \<Rightarrow> rng_state \<Rightarrow> (error + mat) \<times> GP \<times> rng_state" where
  "posterior_samples_f multivariate_normal self Xs size0 full_cov g =
     (case raw_predict self Xs full_cov of
        (Inl e, self1) \<Rightarrow> (Inl e, self1, g)
      | (Inr (m, v), self1) \<Rightarrow>
          let (Ysim, g1) =
                (if \<not> full_cov
                 then multivariate_normal (flatten m) (np_diag (flatten v)) size0 g
                 else multivariate_normal (flatten m) v size0 g)
          in (case Ysim of
                Inl e \<Rightarrow> (Inl e, self1, g1)
              | Inr S \<Rightarrow> (Inr (T S), self1, g1)))"

text \<open>\<^verbatim>\<open>posterior_samples(self, X, size=10, full_cov=False, Y_metadata=None)\<close>.\<close>

definition posterior_samples ::
  "sampler \<Rightarrow> GP \<Rightarrow> ndarray \<Rightarrow> nat \<Rightarrow> bool \<Rightarrow> metadata option \<Rightarrow> rng_state
     \<Rightarrow> (error + ndarray) \<times> GP \<times> rng_state" where
  "posterior_samples multivariate_normal self Xs size0 full_cov meta g =
     (case posterior_samples_f multivariate_normal self Xs size0 full_cov g of
        (Inl e, self1, g1) \<Rightarrow> (Inl e, self1, g1)
      | (Inr Ysim, self1, g1) \<Rightarrow>
          let (r, g2) = samples (likelihood self1) Ysim meta g1 in (r, self1, g2))"

section \<open>The variance the Woodbury identity gives\<close>

text \<open>
  The posterior covariance at new points as the data model states it,
  \<open>K(X*,X*) - K(X*,X) woodbury_inv K(X,X*)\<close>, written with the same array operations:
  the reference the full-covariance branch is compared with.
\<close>

definition subtract_mm :: "mat \<Rightarrow> mat \<Rightarrow> error + mat" where
  "subtract_mm A B =
     (case (broadcast_dim (nrows A) (nrows B), broadcast_dim (ncols A) (ncols B)) of
        (Some r, Some c) \<Rightarrow>
          Inr (tabulate r c (\<lambda>i j. entry A (bidx (nrows A) i) (bidx (ncols A) j)
                                  - entry B (bidx (nrows B) i) (bidx (ncols B) j)))
      | _ \<Rightarrow> Inl ValueError)"

definition woodbury_variance :: "Kern \<Rightarrow> Posterior \<Rightarrow> ndarray \<Rightarrow> ndarray \<Rightarrow> error + mat" where
  "woodbury_variance k post Xs Xnew =
     (case K k Xnew (Some Xnew) of
        Inl e \<Rightarrow> Inl e
      | Inr Kxx \<Rightarrow>
          (case K k Xnew (Some Xs) of
             Inl e \<Rightarrow> Inl e
           | Inr KsX \<Rightarrow>
               (case np_dot_mm (woodbury_inv post) (T KsX) of
                  Inl e \<Rightarrow> Inl e
                | Inr W \<Rightarrow>
                    (case np_dot_mm KsX W of
                       Inl e \<Rightarrow> Inl e
                     | Inr R \<Rightarrow> subtract_mm Kxx R))))"

section \<open>Floating-point arithmetic\<close>

text \<open>
  The arrays hold IEEE doubles and every operation on them is rounded. A double is the real
  it represents; an arithmetic says how the result of one operation is rounded (\<open>rnd\<close>), how
  an inner product is accumulated (\<open>inner\<close>: what the BLAS routine behind \<^verbatim>\<open>np.dot\<close> does)
  and how a list is summed (\<open>add_reduce\<close>: \<^verbatim>\<open>np.sum\<close> along an axis). \<^verbatim>\<open>gp.py\<close> fixes none
  of the three, so they are parameters of the array operations below.
\<close>

record arith =
  rnd :: "real \<Rightarrow> real"
  inner :: "real list \<Rightarrow> real list \<Rightarrow> real"
  add_reduce :: "real list \<Rightarrow> real"

text \<open>
  The sequential arithmetic: every product is rounded, and a sum starts from its first
  term and adds the others from left to right, rounding each time. With the identity as
  rounding it is exact arithmetic.
\<close>

definition seq_sum :: "(real \<Rightarrow> real) \<Rightarrow> real list \<Rightarrow> real" where
  "seq_sum r xs = (case xs of [] \<Rightarrow> 0 | x # ys \<Rightarrow> foldl (\<lambda>s y. r (s + y)) x ys)"

definition seq_inner :: "(real \<Rightarrow> real) \<Rightarrow> real list \<Rightarrow> real list \<Rightarrow> real" where
  "seq_inner r u v = seq_sum r (map (\<lambda>(x, y). r (x * y)) (zip u v))"

definition sequential :: "(real \<Rightarrow> real) \<Rightarrow> arith" where
  "sequential r = \<lparr>rnd = r, inner = seq_inner r, add_reduce = seq_sum r\<rparr>"

text \<open>
  Rounding to the nearest double, ties to even: 53 significant bits, the exponent of the
  argument found by search and kept at or above \<open>-1022\<close> (subnormal numbers). Overflow to
  infinity and NaN are not represented.
\<close>

definition round_half_even :: "real \<Rightarrow> int" where
  "round_half_even x =
     (let f = \<lfloor>x\<rfloor>; d = x - of_int f
      in if d < 1 / 2 then f else if 1 / 2 < d then f + 1 else if even f then f else f + 1)"

primrec find_exponent :: "nat \<Rightarrow> int \<Rightarrow> real \<Rightarrow> int" where
  "find_exponent 0 e a = e"
| "find_exponent (Suc n) e a =
     (if 2 powi (e + 1) \<le> a then find_exponent n (e + 1) a
      else if a < 2 powi e then find_exponent n (e - 1) a
      else e)"

definition exponent :: "real \<Rightarrow> int" where
  "exponent x = find_exponent 2200 0 \<bar>x\<bar>"

definition binary64 :: "real \<Rightarrow> real" where
  "binary64 x =
     (if x = 0 then 0
      else let e = max (exponent x) (- 1022); u = 2 powi (e - 52)
           in of_int (round_half_even (x / u)) * u)"

definition ieee :: arith where
  "ieee = sequential binary64"

text \<open>The array operations of \<^verbatim>\<open>_raw_predict\<close>, in an arithmetic.\<close>

definition np_dot_mm_fl :: "arith \<Rightarrow> mat \<Rightarrow> mat \<Rightarrow> error + mat" where
  "np_dot_mm_fl ar A B =
     (if ncols A = nrows B
      then Inr (tabulate (nrows A) (ncols B)
                  (\<lambda>i j. inner ar (map (entry A i) [0..<ncols A])
                                   (map (\<lambda>k. entry B k j) [0..<ncols A])))
      else Inl ValueError)"

fun np_dot_fl :: "arith \<Rightarrow> mat \<Rightarrow> ndarray \<Rightarrow> error + ndarray" where
  "np_dot_fl ar A (A2 B) = (case np_dot_mm_fl ar A B of Inl e \<Rightarrow> Inl e | Inr C \<Rightarrow> Inr (A2 C))"
| "np_dot_fl ar A (A1 v) =
     (if ncols A = length v
      then Inr (A1 (map (\<lambda>i. inner ar (map (entry A i) [0..<ncols A]) v) [0..<nrows A]))
      else Inl ValueError)"

definition multiply_fl :: "arith \<Rightarrow> mat \<Rightarrow> mat \<Rightarrow> error + mat" where
  "multiply_fl ar A B =
     (case (broadcast_dim (nrows A) (nrows B), broadcast_dim (ncols A) (ncols B)) of
        (Some r, Some c) \<Rightarrow>
          Inr (tabulate r c (\<lambda>i j. rnd ar (entry A (bidx (nrows A) i) (bidx (ncols A) j)
                                          * entry B (bidx (nrows B) i) (bidx (ncols B) j))))
      | _ \<Rightarrow> Inl ValueError)"

definition np_sum0_fl :: "arith \<Rightarrow> mat \<Rightarrow> real list" where
  "np_sum0_fl ar A = map (\<lambda>j. add_reduce ar (map (\<lambda>i. entry A i j) [0..<nrows A])) [0..<ncols A]"

definition subtract_fl :: "arith \<Rightarrow> real list \<Rightarrow> real list \<Rightarrow> error + real list" where
  "subtract_fl ar u v =
     (case broadcast_dim (length u) (length v) of
        Some n \<Rightarrow> Inr (map (\<lambda>i. rnd ar (u ! bidx (length u) i - v ! bidx (length v) i)) [0..<n])
      | None \<Rightarrow> Inl ValueError)"

text \<open>\<^verbatim>\<open>_raw_predict\<close> in an arithmetic: the same statements, with the rounded operations.\<close>

definition raw_predict_fl :: "arith \<Rightarrow> GP \<Rightarrow> ndarray \<Rightarrow> bool \<Rightarrow> (error + mat \<times> mat) \<times> GP" where
  "raw_predict_fl ar self Xnew full_cov =
     (case K (kern self) Xnew (Some (X self)) of
        Inl e \<Rightarrow> (Inl e, self)
      | Inr KT \<Rightarrow>
          let Kx = T KT in
          (case posterior self of
             None \<Rightarrow> (Inl (AttributeError ''posterior''), self)
           | Some post \<Rightarrow>
               (case np_dot_mm_fl ar (woodbury_inv post) Kx of
                  Inl e \<Rightarrow> (Inl e, self)
                | Inr WiKx \<Rightarrow>
                    (case np_dot_fl ar (T Kx) (woodbury_vector post) of
                       Inl e \<Rightarrow> (Inl e, self)
                     | Inr mu \<Rightarrow>
                         (case (if full_cov
                                then (case K (kern self) Xnew None of
                                        Inl e \<Rightarrow> Inl e
                                      | Inr Kxx \<Rightarrow> np_dot_mm_fl ar (T Kx) WiKx)
                                else (case Kdiag (kern self) Xnew of
                                        Inl e \<Rightarrow> Inl e
                                      | Inr Kxx \<Rightarrow>
                                          (case multiply_fl ar WiKx Kx of
                                             Inl e \<Rightarrow> Inl e
                                           | Inr WK \<Rightarrow>
                                               (case subtract_fl ar Kxx (np_sum0_fl ar WK) of
                                                  Inl e \<Rightarrow> Inl e
                                                | Inr var \<Rightarrow> Inr (column var))))) of
                            Inl e \<Rightarrow> (Inl e, self)
                          | Inr var \<Rightarrow>
                              (Inr (case mu of A1 v \<Rightarrow> column v | A2 B \<Rightarrow> B, var), self))))))"

section \<open>Collaborators for the examples\<close>

text \<open>
  The linear kernel \<open>k(x, y) = x \<cdot> y\<close> on two-dimensional inputs with as many columns
  as the kernel's input dimension; \<^verbatim>\<open>K(A)\<close> is \<^verbatim>\<open>K(A, A)\<close>. Its gradient routine stores the
  sum of the entries of the upstream gradient weighted by \<^verbatim>\<open>K(X, X)\<close>.
\<close>

definition linear_K :: "nat \<Rightarrow> ndarray \<Rightarrow> ndarray option \<Rightarrow> error + mat" where
  "linear_K d A B =
     (case (A, case B of None \<Rightarrow> A | Some B' \<Rightarrow> B') of
        (A2 P, A2 Q) \<Rightarrow>
          if ncols P = d \<and> ncols Q = d
          then Inr (tabulate (nrows P) (nrows Q)
                      (\<lambda>i j. \<Sum>k\<leftarrow>[0..<d]. entry P i k * entry Q j k))
          else Inl ValueError
      | _ \<Rightarrow> Inl ValueError)"

definition linear_Kdiag :: "nat \<Rightarrow> ndarray \<Rightarrow> error + real list" where
  "linear_Kdiag d A =
     (case A of
        A2 P \<Rightarrow>
          if ncols P = d
          then Inr (map (\<lambda>i. \<Sum>k\<leftarrow>[0..<d]. entry P i k * entry P i k) [0..<nrows P])
          else Inl ValueError
      | A1 v \<Rightarrow> Inl ValueError)"

definition linear_update :: "nat \<Rightarrow> ndarray \<Rightarrow> ndarray \<Rightarrow> error + real list" where
  "linear_update d G A =
     (case (G, linear_K d A None) of
        (A2 H, Inr C) \<Rightarrow>
          (case multiply H C of
             Inl e \<Rightarrow> Inl e
           | Inr HC \<Rightarrow> Inr [sum_list (np_sum0 HC)])
      | (_, Inl e) \<Rightarrow> Inl e
      | (A1 v, _) \<Rightarrow> Inl ValueError)"

definition linear_kern :: "nat \<Rightarrow> Kern" where
  "linear_kern d = \<lparr>kern_input_dim = d, K = linear_K d, Kdiag = linear_Kdiag d,
               update_gradients_full = linear_update d, kern_gradient = [0]\<rparr>"

text \<open>
  A Gaussian likelihood with noise variance \<open>s\<close>: the predictive variance is the latent
  one plus \<open>s\<close> (on the diagonal when the covariance is full); sampling and quantiles are
  not needed by the examples and return their input or nothing.
\<close>

definition gaussian_lik :: "real \<Rightarrow> Likelihood" where
  "gaussian_lik s =
     \<lparr>lik_class = Gaussian,
      predictive_values = (\<lambda>mu var full_cov meta.
         Inr (A2 mu, A2 (tabulate (nrows var) (ncols var)
                (\<lambda>i j. entry var i j + (if full_cov \<and> i \<noteq> j then 0 else s))))),
      predictive_quantiles = (\<lambda>mu var qs meta. Inr []),
      samples = (\<lambda>Ysim meta g. (Inr (A2 Ysim), g)),
      update_gradients = (\<lambda>G. case G of A1 v \<Rightarrow> Inr v | A2 H \<Rightarrow> Inr (flatten H)),
      lik_gradient = [0]\<rparr>"

text \<open>A likelihood of another class, with the same routines.\<close>

definition bernoulli :: Likelihood where
  "bernoulli = (gaussian_lik 0)\<lparr>lik_class := OtherLikelihood ''Bernoulli''\<rparr>"

text \<open>
  One observation \<open>X = [[1]]\<close>, \<open>Y = [[1]]\<close>, the linear kernel and noise variance 3:
  \<open>K + \<Sigma> = [[4]]\<close>, its Cholesky factor is \<open>[[2]]\<close>, and exact inference gives
  \<open>woodbury_inv = [[1/4]]\<close>, \<open>woodbury_vector = [[1/4]]\<close>, the log marginal likelihood
  \<open>- 1/8 - ln 2 - ln (2 pi) / 2\<close> and the gradient \<open>(1/16 - 1/4) / 2 = - 3/32\<close>.
  The inference method of the examples returns these values.
\<close>

definition a11 :: ndarray where
  "a11 = A2 (Mat 1 1 [[1]])"

definition post0 :: Posterior where
  "post0 = \<lparr>woodbury_chol = Mat 1 1 [[2]], woodbury_inv = Mat 1 1 [[1 / 4]],
            woodbury_vector = A2 (Mat 1 1 [[1 / 4]])\<rparr>"

definition lfi0 :: "inference_method \<Rightarrow> inference_fn" where
  "lfi0 im k Xs l Ys meta =
     Inr (post0, - (1 / 8) - ln 2 - ln (2 * pi) / 2,
          [(''dL_dK'', A2 (Mat 1 1 [[- (3 / 32)]])), (''dL_dthetaL'', A1 [- (3 / 32)])])"

definition gp0 :: GP where
  "gp0 = \<lparr>name = ''gp'', parameters = [''kern'', ''likelihood''], X = a11, num_data = 1,
          input_dim = 1, Y = a11, output_dim = 1, Y_metadata = [], kern = linear_kern 1,
          likelihood = gaussian_lik 3, inference_method = ExactGaussianInference,
          posterior = None, log_marginal_likelihood = None, grad_dict = None\<rparr>"

text \<open>The model after \<^verbatim>\<open>parameters_changed\<close>.\<close>

definition gp1 :: GP where
  "gp1 = snd (parameters_changed lfi0 gp0)"

text \<open>
  A model in doubles. One observation \<open>X = [[5 s]]\<close>, \<open>Y = [[5 s]]\<close> for a power of two
  \<open>s\<close>, the linear kernel and noise variance \<open>2^-60\<close>: \<open>K + \<Sigma>\<close> rounds to \<open>25 s^2\<close>, its
  Cholesky factor is \<open>5 s\<close>, the inverse factor is the double nearest \<open>1 / (5 s)\<close>, and
  exact inference in doubles gives \<open>woodbury_inv\<close>, the rounded square of that, and
  \<open>woodbury_vector\<close>, the inverse factor itself. The inference method of this example
  returns them when it is the exact method; its log marginal likelihood and gradients
  are left unrounded, nothing below reads them.
\<close>

definition x5 :: "real \<Rightarrow> ndarray" where
  "x5 s = A2 (Mat 1 1 [[5 * s]])"

definition post5 :: "real \<Rightarrow> Posterior" where
  "post5 s = \<lparr>woodbury_chol = Mat 1 1 [[5 * s]],
               woodbury_inv = Mat 1 1 [[1441151880758559 / 2 ^ 55 / (s * s)]],
               woodbury_vector = A2 (Mat 1 1 [[3602879701896397 / 2 ^ 54 / s]])\<rparr>"

definition lfi5 :: "real \<Rightarrow> inference_method \<Rightarrow> inference_fn" where
  "lfi5 s im k Xs l Ys meta =
     (if im = ExactGaussianInference
      then Inr (post5 s, - (1 / 2) - ln (5 * s) - ln (2 * pi) / 2,
                [(''dL_dK'', A2 (Mat 1 1 [[0]])), (''dL_dthetaL'', A1 [0])])
      else Inl (OtherError ''NotImplementedError''))"

definition gp5_init :: "real \<Rightarrow> GP" where
  "gp5_init s = gp0\<lparr>X := x5 s, Y := x5 s, likelihood := gaussian_lik (1 / 2 ^ 60)\<rparr>"

definition gp5 :: "real \<Rightarrow> GP" where
  "gp5 s = snd (parameters_changed (lfi5 s) (gp5_init s))"

text \<open>Arrays of zeros, to build inputs of a given shape.\<close>

definition zeros :: "nat \<Rightarrow> nat \<Rightarrow> ndarray" where
  "zeros r c = A2 (tabulate r c (\<lambda>i j. 0))"

text \<open>
  A Gaussian likelihood whose noise variance comes with the metadata of the call, under the
  key \<open>noise\<close> (none is 0); and a model that stores other metadata, after
  \<^verbatim>\<open>parameters_changed\<close>.
\<close>

definition noise_of :: "metadata option \<Rightarrow> real" where
  "noise_of meta =
     (case meta of
        None \<Rightarrow> 0
      | Some m \<Rightarrow> (case map_of m ''noise'' of Some (x # xs) \<Rightarrow> x | _ \<Rightarrow> 0))"

definition hetero_lik :: Likelihood where
  "hetero_lik =
     (gaussian_lik 0)\<lparr>predictive_values := (\<lambda>mu var full_cov meta.
         Inr (A2 mu, A2 (tabulate (nrows var) (ncols var)
                (\<lambda>i j. entry var i j + (if full_cov \<and> i \<noteq> j then 0 else noise_of meta)))))\<rparr>"

text \<open>
  An inference method that reads the metadata it is given: the value under \<open>noise\<close> is what
  it returns as log marginal likelihood.
\<close>

definition lfi_meta :: "inference_method \<Rightarrow> inference_fn" where
  "lfi_meta im k Xs l Ys meta =
     Inr (post0, noise_of (Some meta),
          [(''dL_dK'', A2 (Mat 1 1 [[0]])), (''dL_dthetaL'', A1 [0])])"

definition gp3_init :: GP where
  "gp3_init = gp0\<lparr>likelihood := hetero_lik, Y_metadata := [(''noise'', [5])]\<rparr>"

definition gp3 :: GP where
  "gp3 = snd (parameters_changed lfi_meta gp3_init)"

section \<open>Facts about the array operations\<close>

lemma nrows_tabulate [simp]: "nrows (tabulate r c f) = r"
  by (simp add: tabulate_def)

lemma ncols_tabulate [simp]: "ncols (tabulate r c f) = c"
  by (simp add: tabulate_def)

lemma entry_tabulate [simp]: "i < r \<Longrightarrow> j < c \<Longrightarrow> entry (tabulate r c f) i j = f i j"
  by (simp add: tabulate_def entry_def)

lemma wf_tabulate: "wf_mat (tabulate r c f)"
  by (simp add: wf_mat_def tabulate_def list_all_iff)

lemma tabulate_cong:
  assumes "\<And>i j. i < r \<Longrightarrow> j < c \<Longrightarrow> f i j = g i j"
  shows "tabulate r c f = tabulate r c g"
  using assms by (simp add: tabulate_def)

lemma sum_list_upt_cong:
  assumes "\<And>k. k < n \<Longrightarrow> f k = g k"
  shows "(\<Sum>k\<leftarrow>[0..<n]. f k) = (\<Sum>k\<leftarrow>[0..<n]. g k)"
proof -
  have "map f [0..<n] = map g [0..<n]" using assms by simp
  then show ?thesis by (rule arg_cong[where f = sum_list])
qed

lemma bidx_id [simp]: "i < n \<Longrightarrow> bidx n i = i"
  by (auto simp: bidx_def)

lemma broadcast_dim_same [simp]: "broadcast_dim n n = Some n"
  by (simp add: broadcast_dim_def)

lemma entry_T [simp]: "i < ncols A \<Longrightarrow> j < nrows A \<Longrightarrow> entry (T A) i j = entry A j i"
  by (simp add: T_def)

lemma nrows_T [simp]: "nrows (T A) = ncols A"
  by (simp add: T_def)

lemma ncols_T [simp]: "ncols (T A) = nrows A"
  by (simp add: T_def)

lemma T_T: "T (T A) = tabulate (nrows A) (ncols A) (entry A)"
  unfolding T_def[of "T A"] by (rule trans[OF _ tabulate_cong[of _ _ "\<lambda>i j. entry (T A) j i"]]) simp_all

lemma WiKx_eq:
  assumes "ncols W = ncols Km"
  shows "np_dot_mm W (T Km) = Inr (tabulate (nrows W) (nrows Km) (\<lambda>i j. \<Sum>k\<leftarrow>[0..<ncols Km]. entry W i k * entry Km j k))"
  using assms unfolding np_dot_mm_def
  by (auto intro!: tabulate_cong sum_list_upt_cong)

lemma diag_var_eq:
  assumes "ncols W = ncols Km" "nrows W = ncols Km" "length kd = nrows Km"
    and "np_dot_mm W (T Km) = Inr WiKx"
  shows "\<exists>WK. multiply WiKx (T Km) = Inr WK \<and>
     subtract kd (np_sum0 WK) = Inr (map (\<lambda>j. kd ! j - (\<Sum>i\<leftarrow>[0..<ncols Km]. (\<Sum>k\<leftarrow>[0..<ncols Km]. entry W i k * entry Km j k) * entry Km j i)) [0..<nrows Km])"
proof -
  have W: "WiKx = tabulate (nrows W) (nrows Km) (\<lambda>i j. \<Sum>k\<leftarrow>[0..<ncols Km]. entry W i k * entry Km j k)"
    using WiKx_eq[OF assms(1)] assms(4) by simp
  show ?thesis
    unfolding W multiply_def subtract_def np_sum0_def using assms(1-3)
    by (auto intro!: sum_list_upt_cong)
qed


lemma mean_eq_A2:
  assumes "nrows B = ncols Km"
  shows "np_dot (T (T Km)) (A2 B) =
     Inr (A2 (tabulate (nrows Km) (ncols B) (\<lambda>j p. \<Sum>i\<leftarrow>[0..<ncols Km]. entry Km j i * entry B i p)))"
  using assms by (auto simp: np_dot_mm_def T_T intro!: tabulate_cong sum_list_upt_cong)

lemma mean_eq_A1:
  assumes "length v = ncols Km"
  shows "np_dot (T (T Km)) (A1 v) =
     Inr (A1 (map (\<lambda>j. \<Sum>i\<leftarrow>[0..<ncols Km]. entry Km j i * v ! i) [0..<nrows Km]))"
  using assms by (auto simp: T_T intro!: sum_list_upt_cong)

section \<open>What the raw prediction computes\<close>

text \<open>The raw prediction returns the object it was given.\<close>

lemma raw_predict_self: "snd (raw_predict self Xnew full_cov) = self"
  by (simp add: raw_predict_def Let_def split: sum.splits option.splits)

text \<open>
  The diagonal branch, entry by entry, for \<open>Km = K(X*, X)\<close> and the diagonal \<open>kd\<close>.
\<close>

lemma raw_predict_diag:
  assumes kx: "K (kern self) Xnew (Some (X self)) = Inr Km"
    and post: "posterior self = Some post"
    and W: "nrows (woodbury_inv post) = ncols Km" "ncols (woodbury_inv post) = ncols Km"
    and wv: "shape (woodbury_vector post) ! 0 = ncols Km"
    and kd: "Kdiag (kern self) Xnew = Inr kd" "length kd = nrows Km"
  shows "fst (raw_predict self Xnew False) =
     Inr (case woodbury_vector post of
            A1 v \<Rightarrow> column (map (\<lambda>j. \<Sum>i\<leftarrow>[0..<ncols Km]. entry Km j i * v ! i) [0..<nrows Km])
          | A2 B \<Rightarrow> tabulate (nrows Km) (ncols B)
                      (\<lambda>j p. \<Sum>i\<leftarrow>[0..<ncols Km]. entry Km j i * entry B i p),
          column (map (\<lambda>j. kd ! j - (\<Sum>i\<leftarrow>[0..<ncols Km].
                    (\<Sum>k\<leftarrow>[0..<ncols Km]. entry (woodbury_inv post) i k * entry Km j k) * entry Km j i))
                  [0..<nrows Km]))"
proof -
  obtain WiKx where 1: "np_dot_mm (woodbury_inv post) (T Km) = Inr WiKx"
    using WiKx_eq[OF W(2)] by blast
  obtain WK where 2: "multiply WiKx (T Km) = Inr WK"
    and 3: "subtract kd (np_sum0 WK) = Inr (map (\<lambda>j. kd ! j - (\<Sum>i\<leftarrow>[0..<ncols Km].
                    (\<Sum>k\<leftarrow>[0..<ncols Km]. entry (woodbury_inv post) i k * entry Km j k) * entry Km j i))
                  [0..<nrows Km])"
    using diag_var_eq[OF W(2) W(1) kd(2) 1] by blast
  show ?thesis
  proof (cases "woodbury_vector post")
    case (A1 v)
    then have "length v = ncols Km" using wv by simp
    from mean_eq_A1[OF this] show ?thesis
      by (simp add: raw_predict_def kx post 1 2 3 kd A1)
  next
    case (A2 B)
    then have "nrows B = ncols Km" using wv by simp
    from mean_eq_A2[OF this] show ?thesis
      by (simp add: raw_predict_def kx post 1 2 3 kd A2)
  qed
qed

lemma entry_column: "j < length v \<Longrightarrow> entry (column v) j 0 = v ! j"
  by (simp add: column_def entry_def)

text \<open>
  The full-covariance branch, entry by entry: the product \<open>Km woodbury_inv Km\<^sup>T\<close>, in
  which the array \<open>Kxx\<close> that the kernel returned does not occur.
\<close>

lemma raw_predict_full:
  assumes kx: "K (kern self) Xnew (Some (X self)) = Inr Km"
    and post: "posterior self = Some post"
    and W: "nrows (woodbury_inv post) = ncols Km" "ncols (woodbury_inv post) = ncols Km"
    and wv: "shape (woodbury_vector post) ! 0 = ncols Km"
    and kxx: "K (kern self) Xnew None = Inr Kxx"
  shows "\<exists>mu. fst (raw_predict self Xnew True) =
     Inr (mu, tabulate (nrows Km) (nrows Km) (\<lambda>j l. \<Sum>i\<leftarrow>[0..<ncols Km]. entry Km j i *
                    (\<Sum>k\<leftarrow>[0..<ncols Km]. entry (woodbury_inv post) i k * entry Km l k)))"
proof -
  have 1: "np_dot_mm (woodbury_inv post) (T Km) = Inr (tabulate (nrows (woodbury_inv post)) (nrows Km)
     (\<lambda>i j. \<Sum>k\<leftarrow>[0..<ncols Km]. entry (woodbury_inv post) i k * entry Km j k))" (is "_ = Inr ?WiKx")
    using WiKx_eq[OF W(2)] by blast
  have 2: "np_dot_mm (T (T Km)) ?WiKx = Inr (tabulate (nrows Km) (nrows Km) (\<lambda>j l. \<Sum>i\<leftarrow>[0..<ncols Km]. entry Km j i *
                    (\<Sum>k\<leftarrow>[0..<ncols Km]. entry (woodbury_inv post) i k * entry Km l k)))"
    using W by (auto simp: np_dot_mm_def T_T intro!: tabulate_cong sum_list_upt_cong)
  obtain mu where 3: "np_dot (T (T Km)) (woodbury_vector post) = Inr mu"
  proof (cases "woodbury_vector post")
    case (A1 v)
    then have "length v = ncols Km" using wv by simp
    from mean_eq_A1[OF this] that A1 show ?thesis by simp
  next
    case (A2 B)
    then have "nrows B = ncols Km" using wv by simp
    from mean_eq_A2[OF this] that A2 show ?thesis by simp
  qed
  show ?thesis
    by (simp add: raw_predict_def kx post 1 2 3 kxx)
qed

section \<open>Facts about the rounded operations\<close>

text \<open>The exponent search finds the binade of its argument.\<close>

lemma find_exponent_eq:
  assumes "2 powi e0 \<le> a" "a < 2 powi (e0 + 1)" "nat \<bar>e0 - e\<bar> \<le> n"
  shows "find_exponent n e a = e0"
  using assms
proof (induction n arbitrary: e)
  case 0
  then show ?case by simp
next
  case (Suc n)
  show ?case
  proof (cases "2 powi (e + 1) \<le> a")
    case True
    with Suc.prems(2) have "(2::real) powi (e + 1) < 2 powi (e0 + 1)" by simp
    then have "e + 1 < e0 + 1"
      by (metis not_less power_int_increasing one_le_numeral)
    then have "nat \<bar>e0 - (e + 1)\<bar> \<le> n" using Suc.prems(3) by linarith
    from Suc.IH[OF Suc.prems(1,2) this] True show ?thesis by simp
  next
    case False
    show ?thesis
    proof (cases "a < 2 powi e")
      case True
      with Suc.prems(1) have "(2::real) powi e0 < 2 powi e" by simp
      then have "e0 < e"
        by (metis not_less power_int_increasing one_le_numeral)
      then have "nat \<bar>e0 - (e - 1)\<bar> \<le> n" using Suc.prems(3) by linarith
      from Suc.IH[OF Suc.prems(1,2) this] True False show ?thesis by simp
    next
      case ge: False
      from False Suc.prems(1) have "(2::real) powi e0 < 2 powi (e + 1)" by simp
      then have 1: "e0 < e + 1"
        by (metis not_less power_int_increasing one_le_numeral)
      from ge Suc.prems(2) have "(2::real) powi e < 2 powi (e0 + 1)" by simp
      then have 2: "e < e0 + 1"
        by (metis not_less power_int_increasing one_le_numeral)
      from 1 2 False ge show ?thesis by simp
    qed
  qed
qed

lemma exponent_eq:
  assumes "2 powi e \<le> \<bar>x\<bar>" "\<bar>x\<bar> < 2 powi (e + 1)" "- 2200 \<le> e" "e \<le> 2200"
  shows "exponent x = e"
  unfolding exponent_def
  by (rule find_exponent_eq[OF assms(1,2)]) (use assms(3,4) in simp)

lemma binary64_eval:
  assumes "2 powi e \<le> \<bar>x\<bar>" "\<bar>x\<bar> < 2 powi (e + 1)" "- 1022 \<le> e" "e \<le> 2200"
  shows "binary64 x = of_int (round_half_even (x / 2 powi (e - 52))) * 2 powi (e - 52)"
proof -
  have e: "exponent x = e" using assms by (intro exponent_eq) auto
  have pos: "(0::real) < 2 powi e" by (rule zero_less_power_int) simp
  have "x \<noteq> 0"
  proof
    assume "x = 0"
    with assms(1) have "(2::real) powi e \<le> 0" by simp
    with pos show False by linarith
  qed
  with e assms(3) show ?thesis by (simp add: binary64_def Let_def max_def)
qed

text \<open>With the identity as rounding, the sequential arithmetic is the exact one.\<close>

lemma foldl_add_sum_list: "foldl (\<lambda>s y. s + y) (x::real) ys = x + sum_list ys"
  by (induction ys arbitrary: x) simp_all

lemma seq_sum_exact: "seq_sum (\<lambda>x. x) xs = sum_list xs"
  by (cases xs) (simp_all add: seq_sum_def foldl_add_sum_list)

lemma seq_inner_exact:
  "seq_inner (\<lambda>x. x) (map f xs) (map g xs) = (\<Sum>k\<leftarrow>xs. f k * g k)"
  by (simp add: seq_inner_def seq_sum_exact zip_map_map zip_same_conv_map o_def split_def)

lemma sequential_sel [simp]:
  "rnd (sequential r) = r" "inner (sequential r) = seq_inner r"
  "add_reduce (sequential r) = seq_sum r"
  by (simp_all add: sequential_def)

lemma np_dot_mm_fl_exact: "np_dot_mm_fl (sequential (\<lambda>x. x)) A B = np_dot_mm A B"
  by (simp add: np_dot_mm_fl_def np_dot_mm_def seq_inner_exact)

lemma seq_inner_exact_nth:
  "length v = n \<Longrightarrow> seq_inner (\<lambda>x. x) (map f [0..<n]) v = (\<Sum>k\<leftarrow>[0..<n]. f k * v ! k)"
proof -
  assume "length v = n"
  then have "v = map (\<lambda>k. v ! k) [0..<n]" by (metis map_nth)
  then have "seq_inner (\<lambda>x. x) (map f [0..<n]) v
      = seq_inner (\<lambda>x. x) (map f [0..<n]) (map (\<lambda>k. v ! k) [0..<n])" by simp
  then show ?thesis by (simp only: seq_inner_exact)
qed

lemma np_dot_fl_exact: "np_dot_fl (sequential (\<lambda>x. x)) A w = np_dot A w"
  by (cases w) (simp_all add: np_dot_mm_fl_exact seq_inner_exact_nth)

lemma multiply_fl_exact: "multiply_fl (sequential (\<lambda>x. x)) A B = multiply A B"
  by (simp add: multiply_fl_def multiply_def cong: option.case_cong)

lemma np_sum0_fl_exact: "np_sum0_fl (sequential (\<lambda>x. x)) A = np_sum0 A"
  by (simp add: np_sum0_fl_def np_sum0_def seq_sum_exact)

lemma subtract_fl_exact: "subtract_fl (sequential (\<lambda>x. x)) u v = subtract u v"
  by (simp add: subtract_fl_def subtract_def cong: option.case_cong)

lemma raw_predict_fl_exact:
  "raw_predict_fl (sequential (\<lambda>x. x)) self Xnew full_cov = raw_predict self Xnew full_cov"
  by (simp add: raw_predict_fl_def raw_predict_def np_dot_mm_fl_exact np_dot_fl_exact
      multiply_fl_exact np_sum0_fl_exact subtract_fl_exact
      cong: sum.case_cong option.case_cong if_cong)

text \<open>The diagonal branch in an arithmetic, entry by entry.\<close>

lemma WiKx_fl_eq:
  assumes "ncols W = ncols Km"
  shows "np_dot_mm_fl ar W (T Km) =
     Inr (tabulate (nrows W) (nrows Km)
            (\<lambda>i j. inner ar (map (entry W i) [0..<ncols Km]) (map (entry Km j) [0..<ncols Km])))"
  using assms unfolding np_dot_mm_fl_def
  by (auto intro!: tabulate_cong arg_cong2[where f = "inner ar"])

lemma diag_var_fl_eq:
  assumes "ncols W = ncols Km" "nrows W = ncols Km" "length kd = nrows Km"
    and "np_dot_mm_fl ar W (T Km) = Inr WiKx"
  shows "\<exists>WK. multiply_fl ar WiKx (T Km) = Inr WK \<and>
     subtract_fl ar kd (np_sum0_fl ar WK) =
       Inr (map (\<lambda>j. rnd ar (kd ! j - add_reduce ar (map (\<lambda>i.
                   rnd ar (inner ar (map (entry W i) [0..<ncols Km])
                                    (map (entry Km j) [0..<ncols Km]) * entry Km j i))
                 [0..<ncols Km])))
              [0..<nrows Km])"
proof -
  have W: "WiKx = tabulate (nrows W) (nrows Km)
            (\<lambda>i j. inner ar (map (entry W i) [0..<ncols Km]) (map (entry Km j) [0..<ncols Km]))"
    using WiKx_fl_eq[OF assms(1), of ar] assms(4) by simp
  show ?thesis
    unfolding W multiply_fl_def subtract_fl_def np_sum0_fl_def using assms(1-3)
    by (auto intro!: arg_cong[where f = "rnd ar"] arg_cong[where f = "add_reduce ar"])
qed

lemma mean_fl_defined:
  assumes "shape wv ! 0 = ncols Km"
  shows "\<exists>mu. np_dot_fl ar (T (T Km)) wv = Inr mu"
  using assms by (cases wv) (simp_all add: np_dot_mm_fl_def)

section \<open>What the constructor returns\<close>

text \<open>The constructor on two-dimensional arrays and instances of the expected classes.\<close>

lemma GP_init_2d:
  "GP_init (A2 Xm) (A2 Ym) (Instance k) (Instance l) im nm md =
     (if nrows Ym \<noteq> nrows Xm then Inl AssertionError
      else Inr (\<lparr>name = nm, parameters = [''kern'', ''likelihood''], X = A2 Xm,
                 num_data = nrows Xm, input_dim = ncols Xm, Y = A2 Ym, output_dim = ncols Ym,
                 Y_metadata = (case md of None \<Rightarrow> [] | Some m \<Rightarrow> m),
                 kern = k, likelihood = l,
                 inference_method =
                   (case im of
                      None \<Rightarrow> if lik_class l = Gaussian \<or> lik_class l = MixedNoise
                              then ExactGaussianInference else EP
                    | Some i \<Rightarrow> i),
                 posterior = None, log_marginal_likelihood = None, grad_dict = None\<rparr>,
                case im of
                  None \<Rightarrow> if lik_class l = Gaussian \<or> lik_class l = MixedNoise
                          then [] else [Defaulting_to EP]
                | Some i \<Rightarrow> []))"
  by (simp add: GP_init_def Model_init_def ObservableArray_def add_parameter_def Let_def
      split: option.splits)

text \<open>A construction that succeeds had such arguments, with equal row counts.\<close>

lemma GP_init_Inr:
  assumes "GP_init X0 Y0 k0 l0 im nm md = Inr (self, out)"
  obtains Xm Ym k l where "X0 = A2 Xm" "Y0 = A2 Ym" "k0 = Instance k" "l0 = Instance l"
    "nrows Ym = nrows Xm"
proof (cases X0)
  case (A1 v)
  with assms show ?thesis by (simp add: GP_init_def Model_init_def)
next
  case X: (A2 Xm)
  show ?thesis
  proof (cases Y0)
    case (A1 v)
    with assms X show ?thesis by (simp add: GP_init_def Model_init_def Let_def)
  next
    case Y: (A2 Ym)
    show ?thesis
    proof (cases k0)
      case NonInstance
      with assms X Y show ?thesis
        by (simp add: GP_init_def Model_init_def Let_def ObservableArray_def split: if_splits)
    next
      case k: (Instance k)
      show ?thesis
      proof (cases l0)
        case NonInstance
        with assms X Y k show ?thesis
          by (simp add: GP_init_def Model_init_def Let_def ObservableArray_def split: if_splits)
      next
        case l: (Instance l)
        from assms have "nrows Ym = nrows Xm"
          unfolding X Y k l GP_init_2d by (simp split: if_splits)
        with X Y k l that show ?thesis by blast
      qed
    qed
  qed
qed

section \<open>The example models\<close>

lemma gp0_init:
  "GP_init a11 a11 (Instance (linear_kern 1)) (Instance (gaussian_lik 3)) None ''gp'' None = Inr (gp0, [])"
proof -
  have "lik_class (gaussian_lik 3) = Gaussian" by (simp add: gaussian_lik_def)
  then show ?thesis
    by (simp add: GP_init_def a11_def gp0_def Model_init_def ObservableArray_def
        add_parameter_def Let_def)
qed

lemma linear_update_one:
  "linear_update (Suc 0) (A2 (Mat (Suc 0) (Suc 0) [[g]])) a11 = Inr [g]"
  by (simp add: linear_update_def linear_K_def a11_def multiply_def np_sum0_def tabulate_def entry_def bidx_def)

lemma gp1_fields:
  "K (kern gp1) = linear_K 1" "Kdiag (kern gp1) = linear_Kdiag 1" "X gp1 = a11"
  "posterior gp1 = Some post0"
  "log_marginal_likelihood gp1 = Some (- (1 / 8) - ln 2 - ln (2 * pi) / 2)"
  "fst (parameters_changed lfi0 gp0) = None"
  by (simp_all add: gp1_def parameters_changed_def lfi0_def gp0_def linear_kern_def gaussian_lik_def linear_update_one Let_def)

lemma linear_K_one:
  "linear_K (Suc 0) a11 (Some a11) = Inr (Mat 1 1 [[1]])"
  "linear_K (Suc 0) a11 None = Inr (Mat 1 1 [[1]])"
  by (simp_all add: linear_K_def a11_def tabulate_def entry_def)

lemma linear_Kdiag_one: "linear_Kdiag (Suc 0) a11 = Inr [1]"
  by (simp add: linear_Kdiag_def a11_def entry_def)

lemma raw_predict_gp1_False:
  "raw_predict gp1 a11 False = (Inr (Mat 1 1 [[1 / 4]], Mat 1 1 [[3 / 4]]), gp1)"
  by (simp add: gp1_fields raw_predict_def linear_K_one linear_Kdiag_one post0_def
      T_def np_dot_mm_def tabulate_def entry_def multiply_def subtract_def np_sum0_def
      column_def bidx_def)

lemma likelihood_gp1: "predictive_values (likelihood gp1) = predictive_values (gaussian_lik 3)"
  by (simp add: gp1_def parameters_changed_def lfi0_def gp0_def linear_kern_def Let_def
       linear_update_one gaussian_lik_def)

lemma GP_init_gp3:
  "GP_init a11 a11 (Instance (linear_kern 1)) (Instance hetero_lik) None ''gp''
     (Some [(''noise'', [5])])
   = Inr (gp3_init, [])"
proof -
  have "lik_class hetero_lik = Gaussian" by (simp add: hetero_lik_def gaussian_lik_def)
  then show ?thesis
    by (simp add: a11_def GP_init_2d gp0_def gp3_init_def)
qed

lemma gp3_fields:
  "K (kern gp3) = linear_K 1" "Kdiag (kern gp3) = linear_Kdiag 1" "X gp3 = a11"
  "posterior gp3 = Some post0" "Y_metadata gp3 = [(''noise'', [5])]"
  "predictive_values (likelihood gp3) = predictive_values hetero_lik"
  by (simp_all add: gp3_def gp3_init_def parameters_changed_def lfi_meta_def gp0_def
      linear_kern_def hetero_lik_def gaussian_lik_def linear_update_one Let_def)

lemma raw_predict_gp3_False:
  "fst (raw_predict gp3 a11 False) = Inr (Mat 1 1 [[1 / 4]], Mat 1 1 [[3 / 4]])"
  by (simp add: gp3_fields raw_predict_def linear_K_one linear_Kdiag_one post0_def
      T_def np_dot_mm_def tabulate_def entry_def multiply_def subtract_def np_sum0_def
      column_def bidx_def)

text \<open>The model in doubles: its construction, its fields, and the roundings it meets.\<close>

lemma GP_init_x5:
  "GP_init (x5 s) (x5 s) (Instance (linear_kern 1)) (Instance (gaussian_lik (1 / 2 ^ 60))) None
     ''gp'' None = Inr (gp5_init s, [])"
proof -
  have "lik_class (gaussian_lik (1 / 2 ^ 60)) = Gaussian" by (simp add: gaussian_lik_def)
  then show ?thesis
    by (simp add: x5_def GP_init_2d gp5_init_def gp0_def)
qed

lemma linear_update_x5:
  "linear_update (Suc 0) (A2 (Mat (Suc 0) (Suc 0) [[g]])) (x5 s) = Inr [g * (5 * s * (5 * s))]"
  by (simp add: linear_update_def linear_K_def x5_def multiply_def np_sum0_def tabulate_def
      entry_def bidx_def)

lemma gp5_fields:
  "K (kern (gp5 s)) = linear_K 1" "Kdiag (kern (gp5 s)) = linear_Kdiag 1" "X (gp5 s) = x5 s"
  "posterior (gp5 s) = Some (post5 s)" "inference_method (gp5 s) = ExactGaussianInference"
  "fst (parameters_changed (lfi5 s) (gp5_init s)) = None"
  by (simp_all add: gp5_def gp5_init_def parameters_changed_def lfi5_def gp0_def linear_kern_def
      gaussian_lik_def linear_update_x5 Let_def)

text \<open>
  The posterior is the one exact inference computes in doubles: \<open>K\<close> plus noise rounds to
  25, the inverse of its Cholesky factor 5 rounds to the stored \<open>woodbury_vector\<close>, and the
  square of that rounds to the stored \<open>woodbury_inv\<close>, which is within a relative \<open>2^-52\<close>
  of the inverse of \<open>K\<close> plus noise.
\<close>

lemma binary64_Ky: "binary64 (25 + 1 / 2 ^ 60) = 25"
  by (subst binary64_eval[of 4]) (simp_all add: round_half_even_def power_int_minus)

lemma binary64_Li: "binary64 (1 / 5) = 3602879701896397 / 2 ^ 54"
  by (subst binary64_eval[of "-3"]) (simp_all add: round_half_even_def power_int_minus)

lemma binary64_Wi:
  "binary64 (3602879701896397 / 2 ^ 54 * (3602879701896397 / 2 ^ 54)) = 1441151880758559 / 2 ^ 55"
  by (subst binary64_eval[of "-5"]) (simp_all add: round_half_even_def power_int_minus)

lemma post5_close:
  "\<bar>entry (woodbury_inv (post5 1)) 0 0 * (25 + 1 / 2 ^ 60) - 1\<bar> \<le> 1 / 2 ^ 52"
  by (simp add: post5_def entry_def)

lemma post5_close_scaled:
  "\<bar>entry (woodbury_inv (post5 16777216)) 0 0 * (25 * (16777216 * 16777216) + 1 / 2 ^ 60) - 1\<bar>
     \<le> 1 / 2 ^ 52"
  by (simp add: post5_def entry_def)

text \<open>The roundings the diagonal branch meets at the new point \<open>[[5 s]]\<close>.\<close>

lemma linear_K_x5: "linear_K (Suc 0) (x5 s) (Some (x5 s)) = Inr (Mat 1 1 [[5 * s * (5 * s)]])"
  by (simp add: linear_K_def x5_def tabulate_def entry_def)

lemma linear_Kdiag_x5: "linear_Kdiag (Suc 0) (x5 s) = Inr [5 * s * (5 * s)]"
  by (simp add: linear_Kdiag_def x5_def entry_def)

lemma binary64_WiKx:
  "binary64 (36028797018963975 / 36028797018963968) = 4503599627370497 / 4503599627370496"
  by (subst binary64_eval[of 0]) (simp_all add: round_half_even_def power_int_minus)

lemma binary64_WK:
  "binary64 (112589990684262425 / 4503599627370496) = 3518437208883201 / 140737488355328"
  by (subst binary64_eval[of 4]) (simp_all add: round_half_even_def power_int_minus)

lemma binary64_var: "binary64 (- (1 / 140737488355328)) = - (1 / 140737488355328)"
  by (subst binary64_eval[of "-47"]) (simp_all add: round_half_even_def power_int_minus)

lemma binary64_mu: "binary64 (90071992547409925 / 18014398509481984) = 5"
  by (subst binary64_eval[of 2]) (simp_all add: round_half_even_def power_int_minus)

lemma binary64_WK_scaled: "binary64 (112589990684262425 / 16) = 7036874417766402"
  by (subst binary64_eval[of 52]) (simp_all add: round_half_even_def power_int_minus)

lemma binary64_var_scaled: "binary64 (- 2) = - 2"
  by (subst binary64_eval[of 1]) (simp_all add: round_half_even_def power_int_minus)

lemma binary64_mu_scaled: "binary64 (90071992547409925 / 1073741824) = 83886080"
  by (subst binary64_eval[of 26]) (simp_all add: round_half_even_def power_int_minus)

section \<open>Construction\<close>

text \<open>
  C5, the claim as stated: with 5 rows in \<open>X\<close> and 4 rows in \<open>Y\<close> the construction fails
  with a \<^verbatim>\<open>ShapeMismatchError\<close>. It fails, at \<^verbatim>\<open>assert Y.shape[0] == self.num_data\<close>,
  and the exception is an \<^verbatim>\<open>AssertionError\<close>.
\<close>

theorem rows_five_four:
  "GP_init (zeros 5 1) (zeros 4 1) (Instance (linear_kern 1)) (Instance (gaussian_lik 3)) None
      ''gp'' None = Inl AssertionError
   \<and> exn_name AssertionError \<noteq> ''ShapeMismatchError''"
  by (simp add: zeros_def GP_init_2d)

text \<open>
  C5, as amended. For two-dimensional \<open>X\<close> and \<open>Y\<close> whose row counts differ, the
  construction fails with an \<^verbatim>\<open>AssertionError\<close>, whatever the other arguments are, and
  no object is produced.
\<close>

theorem row_mismatch_assertion:
  assumes "nrows Xm \<noteq> nrows Ym"
  shows "GP_init (A2 Xm) (A2 Ym) k0 l0 im nm md = Inl AssertionError"
  using assms
  by (simp add: GP_init_def Model_init_def ObservableArray_def Let_def)

theorem row_mismatch_assertion_witness:
  "nrows (tabulate 5 1 (\<lambda>i j. 0)) \<noteq> nrows (tabulate 4 1 (\<lambda>i j. 0))
   \<and> GP_init (zeros 5 1) (zeros 4 1) (Instance (linear_kern 1)) (Instance (gaussian_lik 3)) None
        ''gp'' None = Inl AssertionError"
proof -
  have h: "nrows (tabulate 5 1 (\<lambda>i j. 0)) \<noteq> nrows (tabulate 4 1 (\<lambda>i j. 0))" by simp
  show ?thesis using h row_mismatch_assertion[OF h] by (simp add: zeros_def)
qed

text \<open>
  C6. When no inference method is supplied and the construction succeeds, the model's
  inference method is \<^verbatim>\<open>ExactGaussianInference\<close> exactly when the likelihood is a
  \<^verbatim>\<open>Gaussian\<close> or a \<^verbatim>\<open>MixedNoise\<close>, and \<^verbatim>\<open>EP\<close> for every other likelihood.
\<close>

theorem default_inference_method:
  assumes "GP_init X0 Y0 k0 (Instance l) None nm md = Inr (self, out)"
  shows "inference_method self =
           (if lik_class l = Gaussian \<or> lik_class l = MixedNoise then ExactGaussianInference else EP)
         \<and> (inference_method self = ExactGaussianInference)
             = (lik_class l = Gaussian \<or> lik_class l = MixedNoise)"
proof -
  from assms obtain Xm Ym k l' where *: "X0 = A2 Xm" "Y0 = A2 Ym" "k0 = Instance k"
      "Instance l = Instance l'" "nrows Ym = nrows Xm"
    by (rule GP_init_Inr)
  from assms show ?thesis unfolding *(1-3) GP_init_2d using *(5)
    by auto
qed

theorem default_inference_method_witness:
  "GP_init a11 a11 (Instance (linear_kern 1)) (Instance (gaussian_lik 3)) None ''gp'' None
     = Inr (gp0, [])
   \<and> lik_class (gaussian_lik 3) = Gaussian
   \<and> inference_method gp0 = ExactGaussianInference
   \<and> (\<exists>self. GP_init a11 a11 (Instance (linear_kern 1)) (Instance bernoulli) None ''gp'' None
                = Inr (self, [Defaulting_to EP])
              \<and> inference_method self = EP)"
proof -
  have 1: "inference_method gp0 = ExactGaussianInference"
    using default_inference_method[OF gp0_init] by (simp add: gaussian_lik_def)
  have c: "lik_class bernoulli = OtherLikelihood ''Bernoulli''"
    by (simp add: bernoulli_def)
  obtain self where b: "GP_init a11 a11 (Instance (linear_kern 1)) (Instance bernoulli) None
      ''gp'' None = Inr (self, [Defaulting_to EP])"
    by (simp add: a11_def GP_init_2d c)
  from default_inference_method[OF b] have "inference_method self = EP"
    by (simp add: c)
  with b 1 gp0_init show ?thesis
    by (auto simp: gaussian_lik_def)
qed

text \<open>
  C10. For two-dimensional \<open>X\<close> and \<open>Y\<close> with equal row counts, a kernel instance and a
  likelihood instance, the construction succeeds for every kernel, whatever its declared
  input dimension: the kernel is stored as it is and the model's input dimension is the
  column count of \<open>X\<close>.
\<close>

theorem kernel_input_dim_unchecked:
  assumes "nrows Xm = nrows Ym"
  shows "\<exists>self out. GP_init (A2 Xm) (A2 Ym) (Instance k) (Instance l) im nm md = Inr (self, out)
           \<and> kern self = k \<and> input_dim self = ncols Xm"
  using assms by (simp add: GP_init_2d)

theorem kernel_input_dim_unchecked_witness:
  "nrows (Mat 1 1 [[1]]) = nrows (Mat 1 1 [[1]])
   \<and> kern_input_dim (linear_kern 7) \<noteq> ncols (Mat 1 1 [[1]])
   \<and> (\<exists>self out. GP_init a11 a11 (Instance (linear_kern 7)) (Instance (gaussian_lik 3)) None
          ''gp'' None = Inr (self, out)
        \<and> kern self = linear_kern 7 \<and> input_dim self = ncols (Mat 1 1 [[1]]))"
proof -
  have h: "nrows (Mat 1 1 [[1]]) = nrows (Mat 1 1 [[1]])" by simp
  have "kern_input_dim (linear_kern 7) \<noteq> ncols (Mat 1 1 [[1]])"
    by (simp add: linear_kern_def)
  with h kernel_input_dim_unchecked[OF h, of "linear_kern 7" "gaussian_lik 3" None "''gp''" None]
  show ?thesis unfolding a11_def by blast
qed

text \<open>
  The failure comes later: the linear kernel of input dimension 7 on the one-column \<open>X\<close>
  raises at the first covariance evaluation.
\<close>

lemma input_dim_failure_deferred:
  "\<exists>self out. GP_init a11 a11 (Instance (linear_kern 7)) (Instance (gaussian_lik 3)) None
      ''gp'' None = Inr (self, out)
    \<and> fst (raw_predict self a11 False) = Inl ValueError"
  by (simp add: a11_def GP_init_2d raw_predict_def linear_kern_def linear_K_def)

section \<open>The log likelihood before any inference\<close>

text \<open>
  C4, the claim as stated: \<^verbatim>\<open>log_likelihood()\<close> on a freshly constructed model fails with a
  \<^verbatim>\<open>StaleStateError\<close>. It fails, reading the attribute \<^verbatim>\<open>_log_marginal_likelihood\<close>
  that only \<^verbatim>\<open>parameters_changed\<close> assigns, and the exception is an \<^verbatim>\<open>AttributeError\<close>.
\<close>

theorem log_likelihood_fresh:
  "GP_init a11 a11 (Instance (linear_kern 1)) (Instance (gaussian_lik 3)) None ''gp'' None
     = Inr (gp0, [])
   \<and> fst (log_likelihood gp0) = Inl (AttributeError ''_log_marginal_likelihood'')
   \<and> exn_name (AttributeError ''_log_marginal_likelihood'') \<noteq> ''StaleStateError''"
  using gp0_init by (simp add: log_likelihood_def gp0_def)

text \<open>
  C4, as amended. On every model as the constructor returns it, \<^verbatim>\<open>log_likelihood()\<close> fails
  with an \<^verbatim>\<open>AttributeError\<close> on \<^verbatim>\<open>_log_marginal_likelihood\<close> and returns no value; the
  model is unchanged.
\<close>

theorem log_likelihood_before_inference:
  assumes "GP_init X0 Y0 k0 l0 im nm md = Inr (self, out)"
  shows "log_likelihood self = (Inl (AttributeError ''_log_marginal_likelihood''), self)"
proof -
  from assms obtain Xm Ym k l where *: "X0 = A2 Xm" "Y0 = A2 Ym" "k0 = Instance k"
      "l0 = Instance l" "nrows Ym = nrows Xm"
    by (rule GP_init_Inr)
  from assms have "log_marginal_likelihood self = None"
    unfolding * GP_init_2d using *(5) by auto
  then show ?thesis by (simp add: log_likelihood_def)
qed

theorem log_likelihood_before_inference_witness:
  "GP_init a11 a11 (Instance (linear_kern 1)) (Instance (gaussian_lik 3)) None ''gp'' None
     = Inr (gp0, [])
   \<and> log_likelihood gp0 = (Inl (AttributeError ''_log_marginal_likelihood''), gp0)"
  using log_likelihood_before_inference[OF gp0_init] gp0_init by simp

section \<open>The full-covariance branch\<close>

text \<open>
  C1. The claim: with \<^verbatim>\<open>full_cov=True\<close>, \<^verbatim>\<open>_raw_predict\<close> returns as variance
  \<open>K(X*,X*) - K(X*,X) woodbury_inv K(X,X*)\<close>. The code computes \<open>Kxx = K(X*,X*)\<close>
  and returns \<open>K(X*,X) woodbury_inv K(X,X*)\<close> alone. For one observation \<open>X = [[1]]\<close>,
  \<open>Y = [[1]]\<close>, the linear kernel, noise variance 3 and the new point \<open>[[1]]\<close>, the code
  returns the variance \<open>[[1/4]]\<close>, where the claimed expression is \<open>[[3/4]]\<close>.
\<close>

theorem full_cov_variance_at_one:
  "posterior gp1 = Some post0 \<and>
   fst (raw_predict gp1 a11 True) = Inr (Mat 1 1 [[1 / 4]], Mat 1 1 [[1 / 4]]) \<and>
   woodbury_variance (kern gp1) post0 (X gp1) a11 = Inr (Mat 1 1 [[3 / 4]])"
  by (simp add: gp1_fields raw_predict_def woodbury_variance_def linear_K_one post0_def
      T_def np_dot_mm_def tabulate_def entry_def subtract_mm_def bidx_def)

text \<open>
  C2. The claim: the diagonal of the variance returned with \<^verbatim>\<open>full_cov=True\<close> equals the
  variance column returned with \<^verbatim>\<open>full_cov=False\<close>. On the same model and new point the
  two calls return \<open>[[1/4]]\<close> and \<open>[[3/4]]\<close>: the full-covariance branch lacks the
  prior term that the diagonal branch subtracts from.
\<close>

theorem full_cov_diagonal_at_one:
  "fst (raw_predict gp1 a11 True) = Inr (Mat 1 1 [[1 / 4]], Mat 1 1 [[1 / 4]]) \<and>
   fst (raw_predict gp1 a11 False) = Inr (Mat 1 1 [[1 / 4]], Mat 1 1 [[3 / 4]]) \<and>
   entry (Mat 1 1 [[1 / 4]]) 0 0 \<noteq> entry (Mat 1 1 [[3 / 4]]) 0 0"
  by (simp add: gp1_fields raw_predict_def linear_K_one linear_Kdiag_one post0_def
      T_def np_dot_mm_def tabulate_def entry_def multiply_def subtract_def np_sum0_def
      column_def bidx_def)

section \<open>The diagonal branch\<close>

text \<open>
  C7. With \<^verbatim>\<open>full_cov=False\<close>, for \<open>M\<close> new points and \<open>N\<close> observations, when the kernel
  returns the \<open>M \<times> N\<close> array \<open>Km = K(X*, X)\<close> and \<open>M\<close> diagonal entries \<open>kd\<close>, and the
  posterior holds an \<open>N \<times> N\<close> \<open>woodbury_inv\<close> and a \<open>woodbury_vector\<close> with \<open>N\<close> rows:
  the mean is \<open>Km\<close> times \<open>woodbury_vector\<close>, made a column when it comes out
  one-dimensional, and the variance is the \<open>M \<times> 1\<close> column with entries
  \<open>kd[j] - \<Sum>i (woodbury_inv Kx)[i,j] * Kx[i,j]\<close>, where \<open>Kx\<close> is the transpose of \<open>Km\<close>.
  The object is returned unchanged.
\<close>

theorem raw_predict_diagonal_path:
  assumes "K (kern self) Xnew (Some (X self)) = Inr Km"
    and "posterior self = Some post"
    and "nrows (woodbury_inv post) = ncols Km" and "ncols (woodbury_inv post) = ncols Km"
    and "shape (woodbury_vector post) ! 0 = ncols Km"
    and "Kdiag (kern self) Xnew = Inr kd" and "length kd = nrows Km"
  shows "raw_predict self Xnew False =
     (Inr (case woodbury_vector post of
             A1 v \<Rightarrow> column (map (\<lambda>j. \<Sum>i\<leftarrow>[0..<ncols Km]. entry Km j i * v ! i) [0..<nrows Km])
           | A2 B \<Rightarrow> tabulate (nrows Km) (ncols B)
                       (\<lambda>j p. \<Sum>i\<leftarrow>[0..<ncols Km]. entry Km j i * entry B i p),
           column (map (\<lambda>j. kd ! j - (\<Sum>i\<leftarrow>[0..<ncols Km].
                     (\<Sum>k\<leftarrow>[0..<ncols Km]. entry (woodbury_inv post) i k * entry Km j k)
                       * entry Km j i))
                   [0..<nrows Km])),
      self)"
  using raw_predict_diag[OF assms] raw_predict_self[of self Xnew False]
  by (simp add: prod_eq_iff)

theorem raw_predict_diagonal_path_witness:
  "raw_predict gp1 a11 False = (Inr (Mat 1 1 [[1 / 4]], Mat 1 1 [[3 / 4]]), gp1)"
proof -
  have "raw_predict gp1 a11 False =
     (Inr (case woodbury_vector post0 of
             A1 v \<Rightarrow> column (map (\<lambda>j. \<Sum>i\<leftarrow>[0..<ncols (Mat 1 1 [[1]])]. entry (Mat 1 1 [[1]]) j i * v ! i) [0..<nrows (Mat 1 1 [[1]])])
           | A2 B \<Rightarrow> tabulate (nrows (Mat 1 1 [[1]])) (ncols B)
                       (\<lambda>j p. \<Sum>i\<leftarrow>[0..<ncols (Mat 1 1 [[1]])]. entry (Mat 1 1 [[1]]) j i * entry B i p),
           column (map (\<lambda>j. [1] ! j - (\<Sum>i\<leftarrow>[0..<ncols (Mat 1 1 [[1]])].
                     (\<Sum>k\<leftarrow>[0..<ncols (Mat 1 1 [[1]])]. entry (woodbury_inv post0) i k * entry (Mat 1 1 [[1]]) j k)
                       * entry (Mat 1 1 [[1]]) j i))
                   [0..<nrows (Mat 1 1 [[1]])])),
      gp1)"
    by (rule raw_predict_diagonal_path)
       (simp_all add: gp1_fields linear_K_one linear_Kdiag_one post0_def)
  then show ?thesis
    by (simp add: post0_def tabulate_def entry_def column_def)
qed

text \<open>
  C3, the claim as stated: every entry of the variance column of the diagonal branch is
  clamped to be non-negative (at least \<open>-\<epsilon>\<close>), also when the cancellation gives a small
  negative value. It fails in doubles at a training point: for \<open>X = [[5]]\<close>, noise variance
  \<open>2^-60\<close> and the new point \<open>[[5]]\<close>, \<open>woodbury_inv\<close> times \<open>Kx = 25\<close> rounds to
  \<open>1 + 2^-52\<close>, its product with \<open>Kx\<close> to \<open>25 + 2^-47\<close>, and the variance returned is
  \<open>-2^-47\<close>. The same model scaled by \<open>2^24\<close> returns \<open>-2\<close>: no \<open>\<epsilon>\<close> bounds the
  value.
\<close>

theorem diag_variance_negative:
  "fst (raw_predict_fl ieee (gp5 1) (x5 1) False)
     = Inr (Mat 1 1 [[5]], Mat 1 1 [[- (1 / 2 ^ 47)]])
   \<and> entry (Mat 1 1 [[- (1 / 2 ^ 47)]]) 0 0 < 0
   \<and> fst (raw_predict_fl ieee (gp5 16777216) (x5 16777216) False)
     = Inr (Mat 1 1 [[83886080]], Mat 1 1 [[- 2]])"
  by (simp add: raw_predict_fl_def gp5_fields linear_K_x5 linear_Kdiag_x5 post5_def ieee_def
      T_def np_dot_mm_fl_def multiply_fl_def subtract_fl_def np_sum0_fl_def
      seq_inner_def seq_sum_def tabulate_def entry_def column_def bidx_def
      binary64_WiKx binary64_WK binary64_var binary64_mu
      binary64_WK_scaled binary64_var_scaled binary64_mu_scaled)

text \<open>
  C3, as amended. In every arithmetic, the entry \<open>j\<close> of the variance column of the
  diagonal branch is the rounded difference of \<open>kd[j]\<close> and the sum over \<open>i\<close> of the rounded
  products \<open>(woodbury_inv Kx)[i,j] * Kx[i,j]\<close>, returned as computed: no clamping and no
  floor is applied, and a negative difference is returned negative.
\<close>

theorem diag_variance_unclamped:
  assumes "K (kern self) Xnew (Some (X self)) = Inr Km"
    and "posterior self = Some post"
    and "nrows (woodbury_inv post) = ncols Km" and "ncols (woodbury_inv post) = ncols Km"
    and "shape (woodbury_vector post) ! 0 = ncols Km"
    and "Kdiag (kern self) Xnew = Inr kd" and "length kd = nrows Km"
  shows "\<exists>mu. fst (raw_predict_fl ar self Xnew False) =
     Inr (mu,
          column (map (\<lambda>j. rnd ar (kd ! j - add_reduce ar (map (\<lambda>i.
                    rnd ar (inner ar (map (entry (woodbury_inv post) i) [0..<ncols Km])
                                     (map (entry Km j) [0..<ncols Km]) * entry Km j i))
                  [0..<ncols Km])))
                [0..<nrows Km]))"
proof -
  obtain WiKx where 1: "np_dot_mm_fl ar (woodbury_inv post) (T Km) = Inr WiKx"
    using WiKx_fl_eq[OF assms(4)] by blast
  obtain WK where 2: "multiply_fl ar WiKx (T Km) = Inr WK"
    and 3: "subtract_fl ar kd (np_sum0_fl ar WK) =
       Inr (map (\<lambda>j. rnd ar (kd ! j - add_reduce ar (map (\<lambda>i.
                   rnd ar (inner ar (map (entry (woodbury_inv post) i) [0..<ncols Km])
                                    (map (entry Km j) [0..<ncols Km]) * entry Km j i))
                 [0..<ncols Km])))
              [0..<nrows Km])"
    using diag_var_fl_eq[OF assms(4) assms(3) assms(7) 1] by blast
  obtain mu where 4: "np_dot_fl ar (T (T Km)) (woodbury_vector post) = Inr mu"
    using mean_fl_defined[OF assms(5)] by blast
  show ?thesis
    by (simp add: raw_predict_fl_def assms(1,2,6) 1 2 3 4)
qed

theorem diag_variance_unclamped_witness:
  "K (kern (gp5 1)) (x5 1) (Some (X (gp5 1))) = Inr (Mat 1 1 [[25]])
   \<and> posterior (gp5 1) = Some (post5 1)
   \<and> Kdiag (kern (gp5 1)) (x5 1) = Inr [25]
   \<and> (\<exists>mu. fst (raw_predict_fl ieee (gp5 1) (x5 1) False)
              = Inr (mu, Mat 1 1 [[- (1 / 2 ^ 47)]]))"
proof -
  have h: "K (kern (gp5 1)) (x5 1) (Some (X (gp5 1))) = Inr (Mat 1 1 [[25]])"
    "posterior (gp5 1) = Some (post5 1)"
    "nrows (woodbury_inv (post5 1)) = ncols (Mat 1 1 [[25]])"
    "ncols (woodbury_inv (post5 1)) = ncols (Mat 1 1 [[25]])"
    "shape (woodbury_vector (post5 1)) ! 0 = ncols (Mat 1 1 [[25]])"
    "Kdiag (kern (gp5 1)) (x5 1) = Inr [25]"
    "length [25::real] = nrows (Mat 1 1 [[25]])"
    by (simp_all add: gp5_fields linear_K_x5 linear_Kdiag_x5 post5_def)
  from diag_variance_unclamped[OF h, of ieee]
  have "\<exists>mu. fst (raw_predict_fl ieee (gp5 1) (x5 1) False)
              = Inr (mu, Mat 1 1 [[- (1 / 2 ^ 47)]])"
    by (simp add: post5_def ieee_def seq_inner_def seq_sum_def entry_def column_def
        binary64_WiKx binary64_WK binary64_var)
  with h(1,2,6) show ?thesis by blast
qed

section \<open>Queries do not change the model\<close>

lemma predict_self: "snd (predict self Xnew full_cov meta) = self"
  using raw_predict_self[of self Xnew full_cov]
  by (cases "raw_predict self Xnew full_cov") (auto simp: predict_def split: sum.splits)

text \<open>
  C8. A call of \<^verbatim>\<open>predict\<close> leaves the model as it was (posterior, cached log marginal
  likelihood, gradients, \<open>X\<close>, \<open>Y\<close> and all other attributes), and a second call with the
  same arguments returns the same result and the same model. The kernel and the likelihood
  are functions of their arguments here: deterministic, as the claim assumes.
\<close>

theorem predict_twice:
  "snd (predict self Xnew full_cov meta) = self
   \<and> predict (snd (predict self Xnew full_cov meta)) Xnew full_cov meta
       = predict self Xnew full_cov meta"
  by (simp add: predict_self)

theorem predict_twice_witness:
  "predict gp1 a11 False None = (Inr (A2 (Mat 1 1 [[1 / 4]]), A2 (Mat 1 1 [[15 / 4]])), gp1)
   \<and> predict (snd (predict gp1 a11 False None)) a11 False None
       = (Inr (A2 (Mat 1 1 [[1 / 4]]), A2 (Mat 1 1 [[15 / 4]])), gp1)"
proof -
  have "predict gp1 a11 False None = (Inr (A2 (Mat 1 1 [[1 / 4]]), A2 (Mat 1 1 [[15 / 4]])), gp1)"
    by (simp add: predict_def raw_predict_gp1_False likelihood_gp1)
       (simp add: gaussian_lik_def tabulate_def entry_def)
  with predict_twice[of gp1 a11 False None] show ?thesis by simp
qed

section \<open>Where the metadata comes from\<close>

lemma raw_predict_Y_metadata:
  "fst (raw_predict (self\<lparr>Y_metadata := d\<rparr>) Xnew full_cov) = fst (raw_predict self Xnew full_cov)"
  by (simp add: raw_predict_def Let_def split: sum.splits option.splits)

lemma predict_fst:
  "fst (predict self Xnew full_cov meta) =
     (case fst (raw_predict self Xnew full_cov) of
        Inl e \<Rightarrow> Inl e
      | Inr (mu, var) \<Rightarrow> predictive_values (likelihood self) mu var full_cov meta)"
  using raw_predict_self[of self Xnew full_cov]
  by (cases "raw_predict self Xnew full_cov") (auto simp: predict_def split: sum.splits)

lemma predict_quantiles_fst:
  "fst (predict_quantiles self Xs qs meta) =
     (case fst (raw_predict self Xs False) of
        Inl e \<Rightarrow> Inl e
      | Inr (m, v) \<Rightarrow> predictive_quantiles (likelihood self) m v qs meta)"
  using raw_predict_self[of self Xs False]
  by (cases "raw_predict self Xs False") (auto simp: predict_quantiles_def split: sum.splits)

lemma posterior_samples_f_eq:
  "posterior_samples_f mvn self Xs n full_cov g =
     (case fst (raw_predict self Xs full_cov) of
        Inl e \<Rightarrow> (Inl e, self, g)
      | Inr (m, v) \<Rightarrow>
          (case mvn (flatten m) (if full_cov then v else np_diag (flatten v)) n g of
             (Inl e, g1) \<Rightarrow> (Inl e, self, g1)
           | (Inr S, g1) \<Rightarrow> (Inr (T S), self, g1)))"
  using raw_predict_self[of self Xs full_cov]
  by (cases "raw_predict self Xs full_cov")
     (auto simp: posterior_samples_f_def split: sum.splits prod.splits)

lemma posterior_samples_f_self:
  "fst (snd (posterior_samples_f mvn self Xs n full_cov g)) = self"
  by (simp add: posterior_samples_f_eq split: sum.splits prod.splits)

lemma posterior_samples_f_Y_metadata:
  "posterior_samples_f mvn (self\<lparr>Y_metadata := d\<rparr>) Xs n full_cov g =
     (case posterior_samples_f mvn self Xs n full_cov g of (r, s, g1) \<Rightarrow> (r, s\<lparr>Y_metadata := d\<rparr>, g1))"
  by (simp add: posterior_samples_f_eq raw_predict_Y_metadata split: sum.splits prod.splits)

lemma posterior_samples_eq:
  "posterior_samples mvn self Xs n full_cov meta g =
     (case posterior_samples_f mvn self Xs n full_cov g of
        (Inl e, s, g1) \<Rightarrow> (Inl e, self, g1)
      | (Inr Ysim, s, g1) \<Rightarrow>
          (fst (samples (likelihood self) Ysim meta g1), self,
           snd (samples (likelihood self) Ysim meta g1)))"
  using posterior_samples_f_self[of mvn self Xs n full_cov g]
  by (auto simp: posterior_samples_def split: sum.splits prod.splits)

lemma posterior_samples_Y_metadata:
  "posterior_samples mvn (self\<lparr>Y_metadata := d\<rparr>) Xs n full_cov meta g =
     (case posterior_samples mvn self Xs n full_cov meta g of (r, s, g1) \<Rightarrow> (r, s\<lparr>Y_metadata := d\<rparr>, g1))"
  by (simp add: posterior_samples_eq posterior_samples_f_Y_metadata split: sum.splits prod.splits)

lemma parameters_changed_call:
  "parameters_changed lfi self =
     parameters_changed
       (\<lambda>im k xs l ys md. lfi (inference_method self) (kern self) (X self) (likelihood self)
                             (Y self) (Y_metadata self))
       self"
  by (simp add: parameters_changed_def)

lemma parameters_changed_result:
  "(case lfi (inference_method self) (kern self) (X self) (likelihood self) (Y self)
           (Y_metadata self) of
      Inl e \<Rightarrow> parameters_changed lfi self = (Some e, self)
    | Inr (post, lml, gd) \<Rightarrow>
        posterior (snd (parameters_changed lfi self)) = Some post
        \<and> log_marginal_likelihood (snd (parameters_changed lfi self)) = Some lml
        \<and> grad_dict (snd (parameters_changed lfi self)) = Some gd)"
  by (simp add: parameters_changed_def Let_def split: sum.splits prod.splits option.splits)

text \<open>
  C9. \<^verbatim>\<open>predict\<close>, \<^verbatim>\<open>predict_quantiles\<close> and \<^verbatim>\<open>posterior_samples\<close> hand the likelihood
  the metadata argument of the call (\<open>meta\<close>, \<open>None\<close> when omitted); their results, and
  that of \<^verbatim>\<open>log_likelihood\<close>, do not depend on the metadata stored on the model; and
  \<^verbatim>\<open>parameters_changed\<close> calls the inference method with the stored metadata: what the
  method returns at the stored kernel, \<open>X\<close>, likelihood, \<open>Y\<close> and metadata is the error
  raised or the posterior, log marginal likelihood and gradients the model then holds, and
  the method is consulted at no other arguments.
\<close>

theorem Y_metadata_of_the_call:
  "fst (predict self Xnew full_cov meta) =
     (case fst (raw_predict self Xnew full_cov) of
        Inl e \<Rightarrow> Inl e
      | Inr (mu, var) \<Rightarrow> predictive_values (likelihood self) mu var full_cov meta)
   \<and> fst (predict_quantiles self Xnew qs meta) =
     (case fst (raw_predict self Xnew False) of
        Inl e \<Rightarrow> Inl e
      | Inr (m, v) \<Rightarrow> predictive_quantiles (likelihood self) m v qs meta)
   \<and> fst (posterior_samples mvn self Xnew n full_cov meta g) =
     (case posterior_samples_f mvn self Xnew n full_cov g of
        (Inl e, s, g1) \<Rightarrow> Inl e
      | (Inr Ysim, s, g1) \<Rightarrow> fst (samples (likelihood self) Ysim meta g1))
   \<and> fst (predict (self\<lparr>Y_metadata := d\<rparr>) Xnew full_cov meta)
       = fst (predict self Xnew full_cov meta)
   \<and> fst (predict_quantiles (self\<lparr>Y_metadata := d\<rparr>) Xnew qs meta)
       = fst (predict_quantiles self Xnew qs meta)
   \<and> fst (posterior_samples mvn (self\<lparr>Y_metadata := d\<rparr>) Xnew n full_cov meta g)
       = fst (posterior_samples mvn self Xnew n full_cov meta g)
   \<and> fst (log_likelihood (self\<lparr>Y_metadata := d\<rparr>)) = fst (log_likelihood self)
   \<and> parameters_changed lfi self =
       parameters_changed
         (\<lambda>im k xs l ys md. lfi (inference_method self) (kern self) (X self) (likelihood self)
                               (Y self) (Y_metadata self))
         self
   \<and> (case lfi (inference_method self) (kern self) (X self) (likelihood self) (Y self)
              (Y_metadata self) of
         Inl e \<Rightarrow> parameters_changed lfi self = (Some e, self)
       | Inr (post, lml, gd) \<Rightarrow>
           posterior (snd (parameters_changed lfi self)) = Some post
           \<and> log_marginal_likelihood (snd (parameters_changed lfi self)) = Some lml
           \<and> grad_dict (snd (parameters_changed lfi self)) = Some gd)"
proof (intro conjI)
  show "fst (predict self Xnew full_cov meta) =
     (case fst (raw_predict self Xnew full_cov) of
        Inl e \<Rightarrow> Inl e
      | Inr (mu, var) \<Rightarrow> predictive_values (likelihood self) mu var full_cov meta)"
    by (rule predict_fst)
  show "fst (predict_quantiles self Xnew qs meta) =
     (case fst (raw_predict self Xnew False) of
        Inl e \<Rightarrow> Inl e
      | Inr (m, v) \<Rightarrow> predictive_quantiles (likelihood self) m v qs meta)"
    by (rule predict_quantiles_fst)
  show "fst (posterior_samples mvn self Xnew n full_cov meta g) =
     (case posterior_samples_f mvn self Xnew n full_cov g of
        (Inl e, s, g1) \<Rightarrow> Inl e
      | (Inr Ysim, s, g1) \<Rightarrow> fst (samples (likelihood self) Ysim meta g1))"
    by (simp add: posterior_samples_eq split: sum.splits prod.splits)
  show "fst (predict (self\<lparr>Y_metadata := d\<rparr>) Xnew full_cov meta)
       = fst (predict self Xnew full_cov meta)"
    by (simp add: predict_fst raw_predict_Y_metadata split: sum.splits)
  show "fst (predict_quantiles (self\<lparr>Y_metadata := d\<rparr>) Xnew qs meta)
       = fst (predict_quantiles self Xnew qs meta)"
    by (simp add: predict_quantiles_fst raw_predict_Y_metadata split: sum.splits)
  show "fst (posterior_samples mvn (self\<lparr>Y_metadata := d\<rparr>) Xnew n full_cov meta g)
       = fst (posterior_samples mvn self Xnew n full_cov meta g)"
    by (simp add: posterior_samples_Y_metadata split: prod.splits)
  show "fst (log_likelihood (self\<lparr>Y_metadata := d\<rparr>)) = fst (log_likelihood self)"
    by (simp add: log_likelihood_def split: option.splits)
  show "parameters_changed lfi self =
       parameters_changed
         (\<lambda>im k xs l ys md. lfi (inference_method self) (kern self) (X self) (likelihood self)
                               (Y self) (Y_metadata self))
         self"
    by (rule parameters_changed_call)
  show "(case lfi (inference_method self) (kern self) (X self) (likelihood self) (Y self)
              (Y_metadata self) of
         Inl e \<Rightarrow> parameters_changed lfi self = (Some e, self)
       | Inr (post, lml, gd) \<Rightarrow>
           posterior (snd (parameters_changed lfi self)) = Some post
           \<and> log_marginal_likelihood (snd (parameters_changed lfi self)) = Some lml
           \<and> grad_dict (snd (parameters_changed lfi self)) = Some gd)"
    by (rule parameters_changed_result)
qed

text \<open>
  The model \<open>gp3\<close> stores the noise 5, its inference method returns the noise it is given
  as log marginal likelihood, and its likelihood adds the noise of the call to the variance.
\<close>

theorem Y_metadata_of_the_call_witness:
  "Y_metadata gp3_init = [(''noise'', [5])]
   \<and> log_marginal_likelihood (snd (parameters_changed lfi_meta gp3_init)) = Some 5
   \<and> Y_metadata gp3 = [(''noise'', [5])]
   \<and> fst (predict gp3 a11 False (Some [(''noise'', [1])]))
       = Inr (A2 (Mat 1 1 [[1 / 4]]), A2 (Mat 1 1 [[7 / 4]]))
   \<and> fst (predict gp3 a11 False None)
       = Inr (A2 (Mat 1 1 [[1 / 4]]), A2 (Mat 1 1 [[3 / 4]]))"
proof -
  have 0: "Y_metadata gp3_init = [(''noise'', [5])]"
    by (simp add: gp3_init_def)
  have 1: "fst (predict gp3 a11 False (Some [(''noise'', [1])]))
       = Inr (A2 (Mat 1 1 [[1 / 4]]), A2 (Mat 1 1 [[7 / 4]]))"
    using Y_metadata_of_the_call[of gp3 a11 False "Some [(''noise'', [1])]"]
    by (simp add: raw_predict_gp3_False gp3_fields)
       (simp add: hetero_lik_def gaussian_lik_def noise_of_def tabulate_def entry_def)
  have 2: "fst (predict gp3 a11 False None)
       = Inr (A2 (Mat 1 1 [[1 / 4]]), A2 (Mat 1 1 [[3 / 4]]))"
    using Y_metadata_of_the_call[of gp3 a11 False None]
    by (simp add: raw_predict_gp3_False gp3_fields)
       (simp add: hetero_lik_def gaussian_lik_def noise_of_def tabulate_def entry_def)
  have r: "lfi_meta (inference_method gp3_init) (kern gp3_init) (X gp3_init) (likelihood gp3_init)
          (Y gp3_init) (Y_metadata gp3_init)
        = Inr (post0, 5, [(''dL_dK'', A2 (Mat 1 1 [[0]])), (''dL_dthetaL'', A1 [0])])"
    by (simp add: lfi_meta_def noise_of_def 0)
  have "(case lfi_meta (inference_method gp3_init) (kern gp3_init) (X gp3_init)
                (likelihood gp3_init) (Y gp3_init) (Y_metadata gp3_init) of
           Inl e \<Rightarrow> parameters_changed lfi_meta gp3_init = (Some e, gp3_init)
         | Inr (post, lml, gd) \<Rightarrow>
             posterior (snd (parameters_changed lfi_meta gp3_init)) = Some post
             \<and> log_marginal_likelihood (snd (parameters_changed lfi_meta gp3_init)) = Some lml
             \<and> grad_dict (snd (parameters_changed lfi_meta gp3_init)) = Some gd)"
    using Y_metadata_of_the_call[where self = gp3_init and lfi = lfi_meta and Xnew = a11
        and full_cov = False and meta = None and qs = "[]" and n = 0 and g = "[]" and d = "[]"
        and mvn = "\<lambda>m c k g. (Inl ValueError, g)"]
    by blast
  then have 3: "log_marginal_likelihood (snd (parameters_changed lfi_meta gp3_init)) = Some 5"
    unfolding r by simp
  from 0 1 2 3 show ?thesis by (simp add: gp3_fields)
qed

end
